theory Spec2Isabelle
  imports Complex_Main "HOL-Library.Sublist"
begin

section \<open>JavaScript values\<close>

text \<open>
  The condition compiler takes \<^verbatim>\<open>condition: any\<close> and inspects it with \<^verbatim>\<open>typeof\<close>,
  \<^verbatim>\<open>Array.isArray\<close>, \<^verbatim>\<open>instanceof Date\<close>, \<^verbatim>\<open>Object.keys\<close> and \<^verbatim>\<open>Object.entries\<close>.
  The values of the model are the JSON-like values the filter language is made of, together
  with \<^verbatim>\<open>undefined\<close> and \<^verbatim>\<open>Date\<close> objects:
  \<^item> a number is a finite real, \<^verbatim>\<open>NaN\<close> or an infinity (the code only asks for its type);
  \<^item> a string is a list of 8-bit characters, read as code units below 256;
  \<^item> a \<^verbatim>\<open>Date\<close> carries its time value and has no own enumerable property;
  \<^item> an array is the list of its elements (no holes);
  \<^item> a plain object is the list of its own enumerable string-keyed properties, in the
    order in which \<^verbatim>\<open>Object.keys\<close>, \<^verbatim>\<open>Object.entries\<close> and \<^verbatim>\<open>for ... in\<close> enumerate them.
  Functions, symbols and big integers are not part of the model.
\<close>

datatype number = Finite real | NaN | PosInf | NegInf

datatype jsval =
    JUndefined
  | JNull
  | JBool bool
  | JNum number
  | JStr string
  | JDate number
  | JArr "jsval list"
  | JObj "(string \<times> jsval) list"

fun typeof :: "jsval \<Rightarrow> string" where
  "typeof JUndefined = ''undefined''"
| "typeof JNull = ''object''"
| "typeof (JBool b) = ''boolean''"
| "typeof (JNum n) = ''number''"
| "typeof (JStr s) = ''string''"
| "typeof (JDate t) = ''object''"
| "typeof (JArr xs) = ''object''"
| "typeof (JObj kvs) = ''object''"

fun isArray :: "jsval \<Rightarrow> bool" where
  "isArray (JArr xs) = True"
| "isArray v = False"

fun instanceof_Date :: "jsval \<Rightarrow> bool" where
  "instanceof_Date (JDate t) = True"
| "instanceof_Date v = False"

text \<open>The elements of an array (\<^verbatim>\<open>every\<close>, \<^verbatim>\<open>forEach\<close> and indexing are only used on arrays).\<close>

fun items :: "jsval \<Rightarrow> jsval list" where
  "items (JArr xs) = xs"
| "items v = []"

text \<open>Decimal rendering of an array index, as a property key.\<close>

definition digit :: "nat \<Rightarrow> char" where
  "digit d = ''0123456789'' ! d"

function string_of_nat :: "nat \<Rightarrow> string" where
  "string_of_nat n = (if n < 10 then [digit n] else string_of_nat (n div 10) @ [digit (n mod 10)])"
  by pat_completeness auto
termination
  by (relation "measure id") auto

declare string_of_nat.simps [simp del]

text \<open>
  The own enumerable string-keyed properties of a value, in enumeration order: the
  properties of a plain object, the indexed elements of an array, the indexed characters
  of a string, and nothing for the other values.
\<close>

fun own_entries :: "jsval \<Rightarrow> (string \<times> jsval) list" where
  "own_entries (JObj kvs) = kvs"
| "own_entries (JArr xs) = map (\<lambda>i. (string_of_nat i, xs ! i)) [0..<length xs]"
| "own_entries (JStr s) = map (\<lambda>i. (string_of_nat i, JStr [s ! i])) [0..<length s]"
| "own_entries v = []"

definition Object_keys :: "jsval \<Rightarrow> string list" where
  "Object_keys v = map fst (own_entries v)"

definition Object_entries :: "jsval \<Rightarrow> (string \<times> jsval) list" where
  "Object_entries v = own_entries v"

subsection \<open>Strings\<close>

text \<open>\<^verbatim>\<open>String.prototype.trim\<close>: the white space and line terminators below code unit 256.\<close>

definition is_space :: "char \<Rightarrow> bool" where
  "is_space c \<longleftrightarrow> of_char c \<in> {9, 10, 11, 12, 13, 32, 160 :: nat}"

definition trim :: "string \<Rightarrow> string" where
  "trim s = rev (dropWhile is_space (rev (dropWhile is_space s)))"

text \<open>\<^verbatim>\<open>s.replace(/-/g, '_')\<close>: every dash becomes an underscore.\<close>

definition replace_dashes :: "string \<Rightarrow> string" where
  "replace_dashes s = map (\<lambda>c. if c = CHR ''-'' then CHR ''_'' else c) s"

text \<open>\<^verbatim>\<open>s.replace(/\$/, "")\<close>: the first dollar sign is removed.\<close>

fun remove_first_dollar :: "string \<Rightarrow> string" where
  "remove_first_dollar [] = []"
| "remove_first_dollar (c # cs) = (if c = CHR ''$'' then cs else c # remove_first_dollar cs)"

text \<open>\<^verbatim>\<open>s.includes('.')\<close> and \<^verbatim>\<open>s.split('.')\<close>.\<close>

definition includes_dot :: "string \<Rightarrow> bool" where
  "includes_dot s \<longleftrightarrow> CHR ''.'' \<in> set s"

fun split_dot :: "string \<Rightarrow> string list" where
  "split_dot [] = [[]]"
| "split_dot (c # cs) =
     (if c = CHR ''.'' then [] # split_dot cs
      else (case split_dot cs of [] \<Rightarrow> [[c]] | w # ws \<Rightarrow> (c # w) # ws))"

subsection \<open>The JavaScript runtime\<close>

text \<open>
  Three operations of the runtime whose results the compiler passes on without looking at
  them are parameters of the model:
  \<^item> \<^verbatim>\<open>JSON.stringify(v)\<close>;
  \<^item> the conversion to a string of a value that is not a string, inside a template literal;
  \<^item> the message of the \<^verbatim>\<open>TypeError\<close> raised by \<^verbatim>\<open>v.forEach(...)\<close> when \<^verbatim>\<open>v\<close> is not an array;
  and so is the sequence of identifiers that successive calls of \<^verbatim>\<open>uuid()\<close> return.
\<close>

record runtime =
  JSON_stringify :: "jsval \<Rightarrow> jsval"
  to_string :: "jsval \<Rightarrow> string"
  forEach_message :: "jsval \<Rightarrow> string"
  uuid :: "nat \<Rightarrow> string"

text \<open>A value interpolated in a template literal: a string is itself.\<close>

definition template :: "runtime \<Rightarrow> jsval \<Rightarrow> string" where
  "template rt v = (case v of JStr s \<Rightarrow> s | _ \<Rightarrow> to_string rt v)"

subsection \<open>Errors\<close>

text \<open>A thrown \<^verbatim>\<open>Error\<close> object: its name and its message.\<close>

record error =
  name :: string
  message :: string

definition Error :: "string \<Rightarrow> error" where
  "Error msg = \<lparr>name = ''Error'', message = msg\<rparr>"

definition TypeError :: "string \<Rightarrow> error" where
  "TypeError msg = \<lparr>name = ''TypeError'', message = msg\<rparr>"

definition throw :: "error \<Rightarrow> error + 'a" where
  "throw e = Inl e"

section \<open>The condition compiler: \<^verbatim>\<open>parseCondition\<close>\<close>

text \<open>The centralized operator map of \<^verbatim>\<open>parse-condition.ts\<close>.\<close>

definition operatorMap :: "(string \<times> string) list" where
  "operatorMap =
    [(''$in'', ''IN''),
     (''$notIn'', ''NOT IN''),
     (''$gte'', ''>=''),
     (''$lte'', ''<=''),
     (''$gt'', ''>''),
     (''$lt'', ''<''),
     (''$between'', ''BETWEEN''),
     (''$notBetween'', ''NOT BETWEEN''),
     (''$contains'', ''LIKE''),
     (''$notContains'', ''NOT LIKE''),
     (''$iContains'', ''ILIKE''),
     (''$notIContains'', ''NOT ILIKE''),
     (''$startsWith'', ''LIKE''),
     (''$notStartsWith'', ''NOT LIKE''),
     (''$endsWith'', ''LIKE''),
     (''$notEndsWith'', ''NOT LIKE''),
     (''$regex'', ''~''),
     (''$notRegex'', ''!~''),
     (''$regexi'', ''~*''),
     (''$notRegexi'', ''!~*''),
     (''$equalTo'', ''=''),
     (''$notEqualTo'', ''<>''),
     (''$jsonContains'', ''@>''),
     (''$jsonContained'', ''<@''),
     (''$jsonEquals'', ''=''),
     (''$jsonHasKey'', ''?'')]"

text \<open>
  The two results. \<^verbatim>\<open>FindOperatorQB\<close> is \<^verbatim>\<open>{ query, parameters? }\<close>; the parameters are
  an object literal with computed keys, kept as the list of its properties in the order
  written. A \<^verbatim>\<open>FindOperator\<close> is built by the constructors of the finder API; the function
  given to \<^verbatim>\<open>Raw\<close> is kept as a function from the alias to the text.
\<close>

record FindOperatorQB =
  query :: string
  parameters :: "(string \<times> jsval) list option"

datatype FindOperator =
    In jsval
  | Not_op FindOperator
  | MoreThanOrEqual jsval
  | LessThanOrEqual jsval
  | MoreThan jsval
  | LessThan jsval
  | Between jsval jsval
  | Like jsval
  | ILike jsval
  | Equal jsval
  | IsNull
  | Raw "string \<Rightarrow> string" "(string \<times> jsval) list"

datatype parsed = QB FindOperatorQB | Find FindOperator

text \<open>The test on the elements of an array operand, written out in the source each time.\<close>

definition scalar_item :: "jsval \<Rightarrow> bool" where
  "scalar_item item \<longleftrightarrow>
     typeof item = ''string'' \<or> typeof item = ''number'' \<or> instanceof_Date item"

definition every :: "('a \<Rightarrow> bool) \<Rightarrow> 'a list \<Rightarrow> bool" where
  "every p xs = list_all p xs"

text \<open>The characters of a string value (\<^verbatim>\<open>a.trim()\<close> is only reached for a string).\<close>

definition str :: "jsval \<Rightarrow> string" where
  "str v = (case v of JStr s \<Rightarrow> s | _ \<Rightarrow> [])"

text \<open>\<^verbatim>\<open>return { query, parameters }\<close>, \<^verbatim>\<open>return { query }\<close> and the return of an operator.\<close>

definition fragment :: "string \<Rightarrow> (string \<times> jsval) list \<Rightarrow> error + parsed" where
  "fragment q ps = Inr (QB \<lparr>query = q, parameters = Some ps\<rparr>)"

definition fragment_only :: "string \<Rightarrow> error + parsed" where
  "fragment_only q = Inr (QB \<lparr>query = q, parameters = None\<rparr>)"

definition operator :: "FindOperator \<Rightarrow> error + parsed" where
  "operator f = Inr (Find f)"

text \<open>
  The \<^verbatim>\<open>switch (conditionOperator)\<close> of the source, case by case. Here \<open>a\<close> is the text
  \<^verbatim>\<open>${a}\<close> of the field alias and \<open>pp\<close> the parameter prefix.
\<close>

definition switch_operator ::
  "runtime \<Rightarrow> jsval \<Rightarrow> string \<Rightarrow> string \<Rightarrow> string \<Rightarrow> jsval \<Rightarrow> error + parsed" where
  "switch_operator rt conditionFor a pp conditionOperator conditionValue =
    (if conditionOperator = ''$in'' then
       (if isArray conditionValue \<and> every scalar_item (items conditionValue) then
          (if conditionFor = JStr ''qb''
           then fragment (a @ '' IN (:...'' @ pp @ ''_'' @ a @ '')'') [(pp @ ''_'' @ a, conditionValue)]
           else operator (In conditionValue))
        else throw (Error ''$IN_OPERATOR_MUST_HAVE_AN_ARRAY_OF_STRINGS_OR_NUMBERS''))
     else if conditionOperator = ''$notIn'' then
       (if isArray conditionValue \<and> every scalar_item (items conditionValue) then
          (if conditionFor = JStr ''qb''
           then fragment (a @ '' NOT IN (:...'' @ pp @ ''_'' @ a @ '')'') [(pp @ ''_'' @ a, conditionValue)]
           else operator (Not_op (In conditionValue)))
        else throw (Error ''$IN_OPERATOR_MUST_HAVE_AN_ARRAY_OF_STRINGS_OR_NUMBERS''))
     else if conditionOperator = ''$gte'' then
       (if typeof conditionValue \<in> set [''number'', ''string''] \<or> instanceof_Date conditionValue then
          (if conditionFor = JStr ''qb''
           then fragment (a @ '' >= :'' @ pp @ ''_'' @ a) [(pp @ ''_'' @ a, conditionValue)]
           else operator (MoreThanOrEqual conditionValue))
        else throw (Error ''$GTE_OPERATOR_MUST_HAVE_A_NUMBER_STRING_OR_DATE''))
     else if conditionOperator = ''$lte'' then
       (if typeof conditionValue \<in> set [''number'', ''string''] \<or> instanceof_Date conditionValue then
          (if conditionFor = JStr ''qb''
           then fragment (a @ '' <= :'' @ pp @ ''_'' @ a) [(pp @ ''_'' @ a, conditionValue)]
           else operator (LessThanOrEqual conditionValue))
        else throw (Error ''$LTE_OPERATOR_MUST_HAVE_A_NUMBER_STRING_OR_DATE''))
     else if conditionOperator = ''$gt'' then
       (if typeof conditionValue \<in> set [''number'', ''string''] \<or> instanceof_Date conditionValue then
          (if conditionFor = JStr ''qb''
           then fragment (a @ '' > :'' @ pp @ ''_'' @ a) [(pp @ ''_'' @ a, conditionValue)]
           else operator (MoreThan conditionValue))
        else throw (Error ''$GT_OPERATOR_MUST_HAVE_A_NUMBER_STRING_OR_DATE''))
     else if conditionOperator = ''$lt'' then
       (if typeof conditionValue \<in> set [''number'', ''string''] \<or> instanceof_Date conditionValue then
          (if conditionFor = JStr ''qb''
           then fragment (a @ '' < :'' @ pp @ ''_'' @ a) [(pp @ ''_'' @ a, conditionValue)]
           else operator (LessThan conditionValue))
        else throw (Error ''$LT_OPERATOR_MUST_HAVE_A_NUMBER_STRING_OR_DATE''))
     else if conditionOperator = ''$between'' then
       (if isArray conditionValue \<and> length (items conditionValue) = 2
            \<and> every scalar_item (items conditionValue) then
          (if conditionFor = JStr ''qb''
           then fragment (a @ '' BETWEEN :'' @ pp @ ''_'' @ a @ ''_start AND :'' @ pp @ ''_'' @ a @ ''_end'')
                  [(pp @ ''_'' @ a @ ''_start'', items conditionValue ! 0),
                   (pp @ ''_'' @ a @ ''_end'', items conditionValue ! 1)]
           else operator (Between (items conditionValue ! 0) (items conditionValue ! 1)))
        else throw (Error ''$BETWEEN_OPERATOR_MUST_HAVE_AN_ARRAY_WITH_TWO_VALUES''))
     else if conditionOperator = ''$notBetween'' then
       (if isArray conditionValue \<and> length (items conditionValue) = 2
            \<and> every scalar_item (items conditionValue) then
          (if conditionFor = JStr ''qb''
           then fragment (a @ '' NOT BETWEEN :'' @ pp @ ''_'' @ a @ ''_start AND :'' @ pp @ ''_'' @ a @ ''_end'')
                  [(pp @ ''_'' @ a @ ''_start'', items conditionValue ! 0),
                   (pp @ ''_'' @ a @ ''_end'', items conditionValue ! 1)]
           else operator (Not_op (Between (items conditionValue ! 0) (items conditionValue ! 1))))
        else throw (Error ''$NOT_BETWEEN_OPERATOR_MUST_HAVE_AN_ARRAY_WITH_TWO_VALUES''))
     else if conditionOperator = ''$contains'' then
       (if typeof conditionValue = ''string'' then
          (if conditionFor = JStr ''qb''
           then fragment (a @ '' LIKE :'' @ pp @ ''_'' @ a)
                  [(pp @ ''_'' @ a, JStr (''%'' @ template rt conditionValue @ ''%''))]
           else operator (Like (JStr (''%'' @ template rt conditionValue @ ''%''))))
        else throw (Error ''$CONTAINS_OPERATOR_MUST_HAVE_A_STRING_VALUE''))
     else if conditionOperator = ''$notContains'' then
       (if typeof conditionValue = ''string'' then
          (if conditionFor = JStr ''qb''
           then fragment (a @ '' NOT LIKE :'' @ pp @ ''_'' @ a)
                  [(pp @ ''_'' @ a, JStr (''%'' @ template rt conditionValue @ ''%''))]
           else operator (Not_op (Like (JStr (''%'' @ template rt conditionValue @ ''%'')))))
        else throw (Error ''$NOT_CONTAINS_OPERATOR_MUST_HAVE_A_STRING_VALUE''))
     else if conditionOperator = ''$iContains'' then
       (if typeof conditionValue = ''string'' then
          (if conditionFor = JStr ''qb''
           then fragment (a @ '' ILIKE :'' @ pp @ ''_'' @ a)
                  [(pp @ ''_'' @ a, JStr (''%'' @ template rt conditionValue @ ''%''))]
           else operator (ILike (JStr (''%'' @ template rt conditionValue @ ''%''))))
        else throw (Error ''$I_CONTAINS_OPERATOR_MUST_HAVE_A_STRING_VALUE''))
     else if conditionOperator = ''$notIContains'' then
       (if typeof conditionValue = ''string'' then
          (if conditionFor = JStr ''qb''
           then fragment (a @ '' NOT ILIKE :'' @ pp @ ''_'' @ a)
                  [(pp @ ''_'' @ a, JStr (''%'' @ template rt conditionValue @ ''%''))]
           else operator (Not_op (ILike (JStr (''%'' @ template rt conditionValue @ ''%'')))))
        else throw (Error ''$NOT_I_CONTAINS_OPERATOR_MUST_HAVE_A_STRING_VALUE''))
     else if conditionOperator = ''$startsWith'' then
       (if typeof conditionValue = ''string'' then
          (if conditionFor = JStr ''qb''
           then fragment (a @ '' LIKE :'' @ pp @ ''_'' @ a)
                  [(pp @ ''_'' @ a, JStr (template rt conditionValue @ ''%''))]
           else operator (Like (JStr (template rt conditionValue @ ''%''))))
        else throw (Error ''$STARTS_WITH_OPERATOR_MUST_HAVE_A_STRING_VALUE''))
     else if conditionOperator = ''$notStartsWith'' then
       (if typeof conditionValue = ''string'' then
          (if conditionFor = JStr ''qb''
           then fragment (a @ '' NOT LIKE :'' @ pp @ ''_'' @ a)
                  [(pp @ ''_'' @ a, JStr (template rt conditionValue @ ''%''))]
           else operator (Not_op (Like (JStr (template rt conditionValue @ ''%'')))))
        else throw (Error ''$NOT_STARTS_WITH_OPERATOR_MUST_HAVE_A_STRING_VALUE''))
     else if conditionOperator = ''$endsWith'' then
       (if typeof conditionValue = ''string'' then
          (if conditionFor = JStr ''qb''
           then fragment (a @ '' LIKE :'' @ pp @ ''_'' @ a)
                  [(pp @ ''_'' @ a, JStr (''%'' @ template rt conditionValue))]
           else operator (Like (JStr (''%'' @ template rt conditionValue))))
        else throw (Error ''$ENDS_WITH_OPERATOR_MUST_HAVE_A_STRING_VALUE''))
     else if conditionOperator = ''$notEndsWith'' then
       (if typeof conditionValue = ''string'' then
          (if conditionFor = JStr ''qb''
           then fragment (a @ '' NOT LIKE :'' @ pp @ ''_'' @ a)
                  [(pp @ ''_'' @ a, JStr (''%'' @ template rt conditionValue))]
           else operator (Not_op (Like (JStr (''%'' @ template rt conditionValue)))))
        else throw (Error ''$NOT_ENDS_WITH_OPERATOR_MUST_HAVE_A_STRING_VALUE''))
     else if conditionOperator = ''$equalTo'' then
       (if typeof conditionValue = ''string'' \<or> typeof conditionValue = ''number''
            \<or> typeof conditionValue = ''boolean'' \<or> instanceof_Date conditionValue then
          (if conditionFor = JStr ''qb''
           then fragment (a @ '' = :'' @ pp @ ''_'' @ a) [(pp @ ''_'' @ a, conditionValue)]
           else operator (Equal conditionValue))
        else throw (Error ''$EQUAL_TO_OPERATOR_MUST_HAVE_A_STRING_NUMBER_BOOLEAN_OR_DATE_VALUE''))
     else if conditionOperator = ''$notEqualTo'' then
       (if typeof conditionValue = ''string'' \<or> typeof conditionValue = ''number''
            \<or> typeof conditionValue = ''boolean'' \<or> instanceof_Date conditionValue then
          (if conditionFor = JStr ''qb''
           then fragment (a @ '' != :'' @ pp @ ''_'' @ a) [(pp @ ''_'' @ a, conditionValue)]
           else operator (Not_op (Equal conditionValue)))
        else throw (Error ''$NOT_EQUAL_TO_OPERATOR_MUST_HAVE_A_STRING_NUMBER_BOOLEAN_OR_DATE_VALUE''))
     else if conditionOperator = ''$regex'' then
       (if typeof conditionValue = ''string'' then
          (if conditionFor = JStr ''qb''
           then fragment (a @ '' ~ :'' @ pp @ ''_'' @ a) [(pp @ ''_'' @ a, conditionValue)]
           else operator (Raw (\<lambda>alias. alias @ '' ~ :'' @ pp @ ''_'' @ a) [(pp @ ''_'' @ a, conditionValue)]))
        else throw (Error ''$REGEX_OPERATOR_MUST_HAVE_A_STRING_VALUE''))
     else if conditionOperator = ''$notRegex'' then
       (if typeof conditionValue = ''string'' then
          (if conditionFor = JStr ''qb''
           then fragment (a @ '' !~ :'' @ pp @ ''_'' @ a) [(pp @ ''_'' @ a, conditionValue)]
           else operator (Raw (\<lambda>alias. alias @ '' !~ :'' @ pp @ ''_'' @ a) [(pp @ ''_'' @ a, conditionValue)]))
        else throw (Error ''$NOT_REGEX_OPERATOR_MUST_HAVE_A_STRING_VALUE''))
     else if conditionOperator = ''$regexi'' then
       (if typeof conditionValue = ''string'' then
          (if conditionFor = JStr ''qb''
           then fragment (a @ '' ~* :'' @ pp @ ''_'' @ a) [(pp @ ''_'' @ a, conditionValue)]
           else operator (Raw (\<lambda>alias. alias @ '' ~* :'' @ pp @ ''_'' @ a) [(pp @ ''_'' @ a, conditionValue)]))
        else throw (Error ''$REGEXI_OPERATOR_MUST_HAVE_A_STRING_VALUE''))
     else if conditionOperator = ''$notRegexi'' then
       (if typeof conditionValue = ''string'' then
          (if conditionFor = JStr ''qb''
           then fragment (a @ '' !~* :'' @ pp @ ''_'' @ a) [(pp @ ''_'' @ a, conditionValue)]
           else operator (Raw (\<lambda>alias. alias @ '' !~* :'' @ pp @ ''_'' @ a) [(pp @ ''_'' @ a, conditionValue)]))
        else throw (Error ''$NOT_REGEXI_OPERATOR_MUST_HAVE_A_STRING_VALUE''))
     else if conditionOperator = ''$jsonContains'' then
       (if conditionFor = JStr ''qb''
        then fragment (a @ '' @> :'' @ pp @ ''_'' @ a) [(pp @ ''_'' @ a, JSON_stringify rt conditionValue)]
        else operator (Raw (\<lambda>alias. alias @ '' @> :'' @ pp @ ''_'' @ a)
                         [(pp @ ''_'' @ a, JSON_stringify rt conditionValue)]))
     else if conditionOperator = ''$jsonContained'' then
       (if conditionFor = JStr ''qb''
        then fragment (a @ '' <@ :'' @ pp @ ''_'' @ a) [(pp @ ''_'' @ a, JSON_stringify rt conditionValue)]
        else operator (Raw (\<lambda>alias. alias @ '' <@ :'' @ pp @ ''_'' @ a)
                         [(pp @ ''_'' @ a, JSON_stringify rt conditionValue)]))
     else if conditionOperator = ''$jsonEquals'' then
       (if conditionFor = JStr ''qb''
        then fragment (a @ '' = :'' @ pp @ ''_'' @ a) [(pp @ ''_'' @ a, JSON_stringify rt conditionValue)]
        else operator (Raw (\<lambda>alias. alias @ '' = :'' @ pp @ ''_'' @ a)
                         [(pp @ ''_'' @ a, JSON_stringify rt conditionValue)]))
     else if conditionOperator = ''$jsonHasKey'' then
       (if conditionFor = JStr ''qb''
        then fragment (a @ '' ? :'' @ pp @ ''_'' @ a @ ''_key'') [(pp @ ''_'' @ a @ ''_key'', conditionValue)]
        else operator (Raw (\<lambda>alias. alias @ '' ? :'' @ pp @ ''_'' @ a @ ''_key'')
                         [(pp @ ''_'' @ a @ ''_key'', conditionValue)]))
     else throw (Error (''INVALID_CONDITION_OPERATOR '' @ conditionOperator)))"

text \<open>
  \<^verbatim>\<open>parseCondition({ fieldAlias: a, condition, conditionFor })\<close>. The three fields of the
  argument are values of any type; \<open>uuid_v4\<close> is what the call of \<^verbatim>\<open>uuid()\<close> returns.
  An object that is not an array is everything with \<^verbatim>\<open>typeof\<close> \<^verbatim>\<open>'object'\<close> that is left
  once \<^verbatim>\<open>null\<close> is excluded: a plain object, and also a \<^verbatim>\<open>Date\<close>. The first entry of
  \<^verbatim>\<open>Object.entries\<close> is only taken when there is exactly one.
\<close>

definition parseCondition :: "runtime \<Rightarrow> string \<Rightarrow> jsval \<Rightarrow> jsval \<Rightarrow> jsval \<Rightarrow> error + parsed" where
  "parseCondition rt uuid_v4 conditionFor a condition =
    (if conditionFor \<noteq> JStr ''qb'' \<and> conditionFor \<noteq> JStr ''find'' then
       throw (Error ''UNSUPPORTED_CONDITION_FOR_VALUE'')
     else if (typeof a \<noteq> ''string'' \<or> length (trim (str a)) = 0) \<and> conditionFor = JStr ''qb'' then
       throw (Error ''ALIAS_MUST_BE_A_NON_EMPTY_STRING'')
     else if condition = JUndefined \<or> condition = JNull then
       throw (Error ''CONDITION_CANNOT_BE_UNDEFINED_OR_NULL'')
     else if typeof condition = ''object'' \<and> \<not> isArray condition then
       (if length (Object_keys condition) \<noteq> 1 then
          throw (Error ''CONDITION_OBJECT_MUST_HAVE_EXACTLY_ONE_KEY'')
        else if typeof (JStr (fst (hd (Object_entries condition)))) \<noteq> ''string'' then
          throw (Error ''CONDITION_OPERATOR_MUST_BE_A_STRING'')
        else if snd (hd (Object_entries condition)) = JUndefined
              \<or> snd (hd (Object_entries condition)) = JNull then
          throw (Error ''CONDITION_VALUE_CANNOT_BE_UNDEFINED_OR_NULL'')
        else
          switch_operator rt conditionFor (template rt a)
            (replace_dashes uuid_v4 @ ''_'' @ remove_first_dollar (fst (hd (Object_entries condition))))
            (fst (hd (Object_entries condition))) (snd (hd (Object_entries condition))))
     else if isArray condition \<and> every scalar_item (items condition) then
       (if conditionFor = JStr ''qb''
        then fragment (template rt a @ '' IN (:...'' @ replace_dashes uuid_v4 @ ''_in_'' @ template rt a @ '')'')
               [(replace_dashes uuid_v4 @ ''_in_'' @ template rt a, condition)]
        else operator (In condition))
     else if condition = JStr ''$isNull'' then
       (if conditionFor = JStr ''qb''
        then fragment_only (template rt a @ '' IS NULL'')
        else operator IsNull)
     else if condition = JStr ''$isNotNull'' then
       (if conditionFor = JStr ''qb''
        then fragment_only (template rt a @ '' IS NOT NULL'')
        else operator (Not_op IsNull))
     else if typeof condition = ''string'' \<or> typeof condition = ''number''
          \<or> typeof condition = ''boolean'' \<or> instanceof_Date condition then
       (if conditionFor = JStr ''qb''
        then fragment (template rt a @ '' = :'' @ replace_dashes uuid_v4 @ ''_eq_'' @ template rt a)
               [(replace_dashes uuid_v4 @ ''_eq_'' @ template rt a, condition)]
        else operator (Equal condition))
     else throw (Error ''INVALID_CONDITION''))"

text \<open>
  The overload for \<^verbatim>\<open>conditionFor: "qb"\<close>, whose result is a \<^verbatim>\<open>FindOperatorQB\<close>. In this
  mode no branch returns an operator (lemma \<open>parseCondition_qb_fragment\<close> below), so the
  last case is never taken.
\<close>

definition parseCondition_qb :: "runtime \<Rightarrow> string \<Rightarrow> jsval \<Rightarrow> jsval \<Rightarrow> error + FindOperatorQB" where
  "parseCondition_qb rt uuid_v4 a condition =
    (case parseCondition rt uuid_v4 (JStr ''qb'') a condition of
       Inl e \<Rightarrow> Inl e
     | Inr (QB r) \<Rightarrow> Inr r
     | Inr (Find f) \<Rightarrow> Inr \<lparr>query = [], parameters = None\<rparr>)"

section \<open>The Boolean composer: \<^verbatim>\<open>applyWhereConditionsQB\<close>\<close>

text \<open>
  The clause sink is the \<^verbatim>\<open>WhereExpressionBuilder\<close> of the query builder. The composer only
  calls \<^verbatim>\<open>qb[whereMethod](query, parameters)\<close> and \<^verbatim>\<open>qb[whereMethod](new Brackets(callback))\<close>
  on it, so the sink is the sequence of the calls it has received. The builder runs the
  callback of \<^verbatim>\<open>Brackets\<close> on a fresh nested builder while it evaluates the call: the call
  is recorded with what the callback put into the nested builder, and when the callback
  throws, the call is not recorded and the error goes on to the caller.
\<close>

datatype whereMethod = andWhere | orWhere

datatype where_call =
    Where whereMethod string "(string \<times> jsval) list option"
  | WhereBrackets whereMethod "where_call list"

type_synonym WhereExpressionBuilder = "where_call list"

text \<open>
  How a call ends: it returns or it throws. Both carry the state left behind: the sink,
  and the number of identifiers taken from \<^verbatim>\<open>uuid()\<close> so far.
\<close>

datatype completion =
    Returned WhereExpressionBuilder nat
  | Thrown error WhereExpressionBuilder nat

text \<open>The error built in the \<^verbatim>\<open>catch\<close> block (its \<^verbatim>\<open>stack\<close> is not modelled).\<close>

definition errorInc :: "string \<Rightarrow> error \<Rightarrow> error" where
  "errorInc field e =
    \<lparr>name = ''TypeORM_QUERY_CONDITION_PARSING_ERROR'',
     message = ''Error parsing condition for field '' @ [CHR 0x22] @ field @ [CHR 0x22] @ '': '' @ message e\<rparr>"

text \<open>The alias of a field: a dotted field name selects the alias of a relation.\<close>

definition fieldAlias_of :: "string \<Rightarrow> string \<Rightarrow> string" where
  "fieldAlias_of alias field =
    (if includes_dot field then (split_dot field ! 0) @ ''.'' @ (split_dot field ! 1)
     else alias @ ''.'' @ field)"

text \<open>A measure of the nesting of a value, for the termination of the composer.\<close>

fun nesting :: "jsval \<Rightarrow> nat" where
  "nesting (JArr xs) = Suc (sum_list (map nesting xs))"
| "nesting (JObj kvs) = Suc (sum_list (map (\<lambda>kv. nesting (snd kv)) kvs))"
| "nesting v = 0"

text \<open>
  \<^verbatim>\<open>applyWhereConditionsQB(qb, whereMethod, conditions, alias)\<close>, with its two iterations:
  \<open>for_in\<close> is the \<^verbatim>\<open>for (const field in conditions)\<close> loop over the own properties that
  are left to visit (the body of the \<^verbatim>\<open>try\<close> and the \<^verbatim>\<open>catch\<close> around it), and \<open>forEach\<close>
  is \<^verbatim>\<open>condition.forEach\<close> inside the callback of \<^verbatim>\<open>Brackets\<close>, which starts on an empty
  nested builder. Every call of \<^verbatim>\<open>parseCondition\<close> takes the next identifier.
\<close>

function applyWhereConditionsQB ::
    "runtime \<Rightarrow> WhereExpressionBuilder \<Rightarrow> whereMethod \<Rightarrow> jsval \<Rightarrow> string \<Rightarrow> nat \<Rightarrow> completion"
  and for_in ::
    "runtime \<Rightarrow> WhereExpressionBuilder \<Rightarrow> whereMethod \<Rightarrow> (string \<times> jsval) list \<Rightarrow> string \<Rightarrow> nat \<Rightarrow> completion"
  and forEach ::
    "runtime \<Rightarrow> WhereExpressionBuilder \<Rightarrow> whereMethod \<Rightarrow> jsval list \<Rightarrow> string \<Rightarrow> nat \<Rightarrow> completion"
where
  "applyWhereConditionsQB rt qb wm conditions alias n =
     for_in rt qb wm (own_entries conditions) alias n"
| "for_in rt qb wm [] alias n = Returned qb n"
| "for_in rt qb wm ((field, condition) # rest) alias n =
     (if field = ''$and'' \<or> field = ''$or'' then
        (if isArray condition then
           (case forEach rt [] (if field = ''$and'' then andWhere else orWhere) (items condition) alias n of
              Thrown e nestedQb n' \<Rightarrow> Thrown (errorInc field e) qb n'
            | Returned nestedQb n' \<Rightarrow> for_in rt (qb @ [WhereBrackets wm nestedQb]) wm rest alias n')
         else Thrown (errorInc field (TypeError (forEach_message rt condition))) qb n)
      else
        (case parseCondition_qb rt (uuid rt n) (JStr (fieldAlias_of alias field)) condition of
           Inl e \<Rightarrow> Thrown (errorInc field e) qb (Suc n)
         | Inr r \<Rightarrow> for_in rt (qb @ [Where wm (query r) (parameters r)]) wm rest alias (Suc n)))"
| "forEach rt nestedQb wm [] alias n = Returned nestedQb n"
| "forEach rt nestedQb wm (nestedCondition # others) alias n =
     (case applyWhereConditionsQB rt nestedQb wm nestedCondition alias n of
        Thrown e nestedQb' n' \<Rightarrow> Thrown e nestedQb' n'
      | Returned nestedQb' n' \<Rightarrow> forEach rt nestedQb' wm others alias n')"
  by pat_completeness auto
termination
proof (relation "inv_image (less_than <*lex*> less_than <*lex*> less_than)
    (\<lambda>x. case x of
       Inl (rt, qb, wm, conditions, alias, n) \<Rightarrow> (nesting conditions, 1::nat, 0::nat)
     | Inr (Inl (rt, qb, wm, entries, alias, n)) \<Rightarrow>
         (sum_list (map (\<lambda>kv. nesting (snd kv)) entries), 0, length entries)
     | Inr (Inr (rt, qb, wm, xs, alias, n)) \<Rightarrow> (sum_list (map nesting xs), 2, length xs))",
    goal_cases)
  case 1
  show ?case by (intro wf_inv_image wf_lex_prod wf_less_than)
next
  case (2 rt qb wm conditions)
  have "sum_list (map (\<lambda>kv. nesting (snd kv)) (own_entries conditions)) \<le> nesting conditions"
  proof (cases conditions)
    case (JArr xs)
    have "map (\<lambda>kv. nesting (snd kv)) (own_entries (JArr xs))
        = map nesting (map (\<lambda>i. xs ! i) [0..<length xs])"
      by simp
    then show ?thesis using JArr by (simp add: map_nth del: own_entries.simps)
  next
    case (JStr s)
    then show ?thesis by (simp add: comp_def)
  qed simp_all
  then show ?case by auto
next
  case (3 rt qb wm field condition)
  then have "sum_list (map nesting (items condition)) < nesting condition"
    by (cases condition) simp_all
  then show ?case by auto
next
  case 4
  then show ?case by auto
next
  case 5
  then show ?case by auto
next
  case 6
  then show ?case by auto
next
  case 7
  then show ?case by auto
qed

section \<open>Sorting: \<^verbatim>\<open>applySortOrderQB\<close>\<close>

text \<open>
  The query builder as the sort code sees it: its alias and the sequence of the calls of
  \<^verbatim>\<open>addOrderBy(fieldAlias, order)\<close> it has received.
\<close>

record SelectQueryBuilder =
  alias' :: string
  orderBys :: "(string \<times> string) list"

definition addOrderBy :: "SelectQueryBuilder \<Rightarrow> string \<Rightarrow> string \<Rightarrow> SelectQueryBuilder" where
  "addOrderBy queryBuilder fieldAlias order' =
     queryBuilder\<lparr>orderBys := orderBys queryBuilder @ [(fieldAlias, order')]\<rparr>"

text \<open>\<^verbatim>\<open>value === 'ascend' || value === 'asc' || value === 'ascending' || value === 1 ? 'ASC' : 'DESC'\<close>\<close>

definition sort_order :: "jsval \<Rightarrow> string" where
  "sort_order v =
    (if v = JStr ''ascend'' \<or> v = JStr ''asc'' \<or> v = JStr ''ascending'' \<or> v = JNum (Finite 1)
     then ''ASC'' else ''DESC'')"

definition applySortOrderQB :: "SelectQueryBuilder \<Rightarrow> jsval \<Rightarrow> SelectQueryBuilder" where
  "applySortOrderQB queryBuilder sort' =
    foldl (\<lambda>qb (key, v). addOrderBy qb (fieldAlias_of (alias' qb) key) (sort_order v))
      queryBuilder (Object_entries sort')"

section \<open>Notions used in the statements\<close>

text \<open>A runtime to evaluate examples on: version 4 identifiers that differ in the last digits.\<close>

definition sample_runtime :: runtime where
  "sample_runtime =
    \<lparr>JSON_stringify = (\<lambda>v. JStr ''{}''),
     to_string = (\<lambda>v. ''[object Object]''),
     forEach_message = (\<lambda>v. ''condition.forEach is not a function''),
     uuid = (\<lambda>n. ''9b1deb4d-3b7d-4bad-9bdd-2b0d7b3dcb6'' @ string_of_nat n)\<rparr>"

text \<open>
  The checks of the validation order, in the words of the specification: the target mode
  is one of the two recognized modes; in fragment mode the field reference is a string
  that is not empty and not only white space; the condition is present.
\<close>

definition unsupported_target :: "jsval \<Rightarrow> bool" where
  "unsupported_target conditionFor \<longleftrightarrow> conditionFor \<noteq> JStr ''qb'' \<and> conditionFor \<noteq> JStr ''find''"

definition blank :: "string \<Rightarrow> bool" where
  "blank s \<longleftrightarrow> (\<forall>c \<in> set s. is_space c)"

definition invalid_field_reference :: "jsval \<Rightarrow> jsval \<Rightarrow> bool" where
  "invalid_field_reference conditionFor a \<longleftrightarrow>
     conditionFor = JStr ''qb'' \<and> (case a of JStr s \<Rightarrow> blank s | _ \<Rightarrow> True)"

definition absent :: "jsval \<Rightarrow> bool" where
  "absent v \<longleftrightarrow> v = JUndefined \<or> v = JNull"

text \<open>An object that is not an array, as the compiler tests it.\<close>

definition object_not_array :: "jsval \<Rightarrow> bool" where
  "object_not_array v \<longleftrightarrow> typeof v = ''object'' \<and> \<not> isArray v \<and> v \<noteq> JNull"

text \<open>The recognized operator tokens are the keys of the operator map.\<close>

definition recognized :: "string \<Rightarrow> bool" where
  "recognized token \<longleftrightarrow> token \<in> set (map fst operatorMap)"

text \<open>The message an operator raises when its operand has the wrong shape, where it checks one.\<close>

definition operandError :: "(string \<times> string) list" where
  "operandError =
    [(''$in'', ''$IN_OPERATOR_MUST_HAVE_AN_ARRAY_OF_STRINGS_OR_NUMBERS''),
     (''$notIn'', ''$IN_OPERATOR_MUST_HAVE_AN_ARRAY_OF_STRINGS_OR_NUMBERS''),
     (''$gte'', ''$GTE_OPERATOR_MUST_HAVE_A_NUMBER_STRING_OR_DATE''),
     (''$lte'', ''$LTE_OPERATOR_MUST_HAVE_A_NUMBER_STRING_OR_DATE''),
     (''$gt'', ''$GT_OPERATOR_MUST_HAVE_A_NUMBER_STRING_OR_DATE''),
     (''$lt'', ''$LT_OPERATOR_MUST_HAVE_A_NUMBER_STRING_OR_DATE''),
     (''$between'', ''$BETWEEN_OPERATOR_MUST_HAVE_AN_ARRAY_WITH_TWO_VALUES''),
     (''$notBetween'', ''$NOT_BETWEEN_OPERATOR_MUST_HAVE_AN_ARRAY_WITH_TWO_VALUES''),
     (''$contains'', ''$CONTAINS_OPERATOR_MUST_HAVE_A_STRING_VALUE''),
     (''$notContains'', ''$NOT_CONTAINS_OPERATOR_MUST_HAVE_A_STRING_VALUE''),
     (''$iContains'', ''$I_CONTAINS_OPERATOR_MUST_HAVE_A_STRING_VALUE''),
     (''$notIContains'', ''$NOT_I_CONTAINS_OPERATOR_MUST_HAVE_A_STRING_VALUE''),
     (''$startsWith'', ''$STARTS_WITH_OPERATOR_MUST_HAVE_A_STRING_VALUE''),
     (''$notStartsWith'', ''$NOT_STARTS_WITH_OPERATOR_MUST_HAVE_A_STRING_VALUE''),
     (''$endsWith'', ''$ENDS_WITH_OPERATOR_MUST_HAVE_A_STRING_VALUE''),
     (''$notEndsWith'', ''$NOT_ENDS_WITH_OPERATOR_MUST_HAVE_A_STRING_VALUE''),
     (''$equalTo'', ''$EQUAL_TO_OPERATOR_MUST_HAVE_A_STRING_NUMBER_BOOLEAN_OR_DATE_VALUE''),
     (''$notEqualTo'', ''$NOT_EQUAL_TO_OPERATOR_MUST_HAVE_A_STRING_NUMBER_BOOLEAN_OR_DATE_VALUE''),
     (''$regex'', ''$REGEX_OPERATOR_MUST_HAVE_A_STRING_VALUE''),
     (''$notRegex'', ''$NOT_REGEX_OPERATOR_MUST_HAVE_A_STRING_VALUE''),
     (''$regexi'', ''$REGEXI_OPERATOR_MUST_HAVE_A_STRING_VALUE''),
     (''$notRegexi'', ''$NOT_REGEXI_OPERATOR_MUST_HAVE_A_STRING_VALUE'')]"

text \<open>
  Two texts are the same up to the identifier when one becomes the other by putting the
  second identifier where the first one stands.
\<close>

inductive same_text :: "string \<Rightarrow> string \<Rightarrow> string \<Rightarrow> string \<Rightarrow> bool" for id1 id2 where
  same_Nil: "same_text id1 id2 [] []"
| same_Cons: "same_text id1 id2 s t \<Longrightarrow> same_text id1 id2 (c # s) (c # t)"
| same_Id: "same_text id1 id2 s t \<Longrightarrow> same_text id1 id2 (id1 @ s) (id2 @ t)"

text \<open>A parameter name with the identifier in front erased, if the identifier is in front.\<close>

definition erase_id :: "string \<Rightarrow> string \<Rightarrow> string option" where
  "erase_id i nm = (if take (length i) nm = i then Some (drop (length i) nm) else None)"

definition same_parameter :: "string \<Rightarrow> string \<Rightarrow> string \<times> jsval \<Rightarrow> string \<times> jsval \<Rightarrow> bool" where
  "same_parameter id1 id2 p1 p2 \<longleftrightarrow>
     erase_id id1 (fst p1) \<noteq> None \<and> erase_id id1 (fst p1) = erase_id id2 (fst p2) \<and> snd p1 = snd p2"

definition same_fragment :: "string \<Rightarrow> string \<Rightarrow> FindOperatorQB \<Rightarrow> FindOperatorQB \<Rightarrow> bool" where
  "same_fragment id1 id2 r1 r2 \<longleftrightarrow>
     same_text id1 id2 (query r1) (query r2)
     \<and> rel_option (list_all2 (same_parameter id1 id2)) (parameters r1) (parameters r2)"

fun same_result :: "string \<Rightarrow> string \<Rightarrow> error + parsed \<Rightarrow> error + parsed \<Rightarrow> bool" where
  "same_result id1 id2 (Inl e1) (Inl e2) = (e1 = e2)"
| "same_result id1 id2 (Inr (QB r1)) (Inr (QB r2)) = same_fragment id1 id2 r1 r2"
| "same_result id1 id2 x y = False"

text \<open>A call that ended by throwing.\<close>

fun thrown :: "completion \<Rightarrow> bool" where
  "thrown (Thrown e qb n) = True"
| "thrown (Returned qb n) = False"

fun sink_after :: "completion \<Rightarrow> WhereExpressionBuilder" where
  "sink_after (Thrown e qb n) = qb"
| "sink_after (Returned qb n) = qb"

text \<open>
  A filter tree has a field whose condition fails to compile: a field of the tree itself,
  or a field of a tree nested under \<^verbatim>\<open>$and\<close> or \<^verbatim>\<open>$or\<close>.
\<close>

inductive failing :: "runtime \<Rightarrow> string \<Rightarrow> jsval \<Rightarrow> bool" for rt base where
  field_fails:
    "(field, condition) \<in> set (own_entries conditions) \<Longrightarrow> field \<noteq> ''$and'' \<Longrightarrow> field \<noteq> ''$or''
     \<Longrightarrow> isl (parseCondition_qb rt u (JStr (fieldAlias_of base field)) condition)
     \<Longrightarrow> failing rt base conditions"
| nested_fails:
    "(field, condition) \<in> set (own_entries conditions) \<Longrightarrow> field = ''$and'' \<or> field = ''$or''
     \<Longrightarrow> nestedCondition \<in> set (items condition) \<Longrightarrow> failing rt base nestedCondition
     \<Longrightarrow> failing rt base conditions"

text \<open>
  The clauses that the fields \<open>entries\<close> merge into a sink when every one of them
  compiles, the first identifier taken being the one numbered \<open>n\<close> and the next one left
  being numbered \<open>n1\<close>: one clause per field, in the order of the fields. The clause of a
  field is its compiled fragment, passed to the method of the call; the clause of an
  \<^verbatim>\<open>$and\<close> or \<^verbatim>\<open>$or\<close> group is the bracketed sequence of what the trees of the group merge.
\<close>

fun merged :: "runtime \<Rightarrow> whereMethod \<Rightarrow> string \<Rightarrow> nat \<Rightarrow> (string \<times> jsval) list
    \<Rightarrow> where_call list \<Rightarrow> nat \<Rightarrow> bool" where
  "merged rt wm base n [] [] n1 = (n1 = n)"
| "merged rt wm base n ((field, condition) # entries) (clause # clauses) n1 =
     (if field = ''$and'' \<or> field = ''$or'' then
        (case forEach rt [] (if field = ''$and'' then andWhere else orWhere) (items condition) base n of
           Returned nestedQb n' \<Rightarrow>
             isArray condition \<and> clause = WhereBrackets wm nestedQb \<and> merged rt wm base n' entries clauses n1
         | Thrown e nestedQb n' \<Rightarrow> False)
      else
        (case parseCondition_qb rt (uuid rt n) (JStr (fieldAlias_of base field)) condition of
           Inr r \<Rightarrow> clause = Where wm (query r) (parameters r) \<and> merged rt wm base (Suc n) entries clauses n1
         | Inl e \<Rightarrow> False))"
| "merged rt wm base n entries clauses n1 = False"

text \<open>
  The field \<open>field\<close> fails with the cause \<open>e\<close> when the identifier numbered \<open>n\<close> is the next
  one, leaving the one numbered \<open>n'\<close>: the compiler fails on its condition, or a tree of the
  group throws, or the value of the group is not an array.
\<close>

definition fails_at :: "runtime \<Rightarrow> string \<Rightarrow> nat \<Rightarrow> string \<Rightarrow> jsval \<Rightarrow> error \<Rightarrow> nat \<Rightarrow> bool" where
  "fails_at rt base n field condition e n' =
     (if field = ''$and'' \<or> field = ''$or'' then
        (if isArray condition then
           (case forEach rt [] (if field = ''$and'' then andWhere else orWhere) (items condition) base n of
              Thrown e' nestedQb k \<Rightarrow> e' = e \<and> k = n'
            | Returned nestedQb k \<Rightarrow> False)
         else e = TypeError (forEach_message rt condition) \<and> n' = n)
      else parseCondition_qb rt (uuid rt n) (JStr (fieldAlias_of base field)) condition = Inl e \<and> n' = Suc n)"

section \<open>Properties of the condition compiler\<close>

subsection \<open>The switch over the operator tokens\<close>

lemmas result_defs = fragment_def fragment_only_def operator_def throw_def

lemma recognized_cases:
  "recognized op \<longleftrightarrow> op \<in> {''$in'', ''$notIn'', ''$gte'', ''$lte'', ''$gt'', ''$lt'', ''$between'', ''$notBetween'',
     ''$contains'', ''$notContains'', ''$iContains'', ''$notIContains'', ''$startsWith'', ''$notStartsWith'',
     ''$endsWith'', ''$notEndsWith'', ''$regex'', ''$notRegex'', ''$regexi'', ''$notRegexi'', ''$equalTo'',
     ''$notEqualTo'', ''$jsonContains'', ''$jsonContained'', ''$jsonEquals'', ''$jsonHasKey''}"
  unfolding recognized_def operatorMap_def by simp

lemma recognized_induct [consumes 1]:
  assumes "recognized op"
    and "P ''$in''" "P ''$notIn''" "P ''$gte''" "P ''$lte''" "P ''$gt''" "P ''$lt''" "P ''$between''"
      "P ''$notBetween''" "P ''$contains''" "P ''$notContains''" "P ''$iContains''" "P ''$notIContains''"
      "P ''$startsWith''" "P ''$notStartsWith''" "P ''$endsWith''" "P ''$notEndsWith''" "P ''$regex''"
      "P ''$notRegex''" "P ''$regexi''" "P ''$notRegexi''" "P ''$equalTo''" "P ''$notEqualTo''"
      "P ''$jsonContains''" "P ''$jsonContained''" "P ''$jsonEquals''" "P ''$jsonHasKey''"
  shows "P op"
proof -
  from assms(1) have "op \<in> {''$in'', ''$notIn'', ''$gte'', ''$lte'', ''$gt'', ''$lt'', ''$between'', ''$notBetween'',
     ''$contains'', ''$notContains'', ''$iContains'', ''$notIContains'', ''$startsWith'', ''$notStartsWith'',
     ''$endsWith'', ''$notEndsWith'', ''$regex'', ''$notRegex'', ''$regexi'', ''$notRegexi'', ''$equalTo'',
     ''$notEqualTo'', ''$jsonContains'', ''$jsonContained'', ''$jsonEquals'', ''$jsonHasKey''}"
    by (simp only: recognized_cases)
  then show ?thesis
    using assms(2-) by (elim insertE emptyE) (simp_all only:)
qed

lemma switch_default:
  assumes "\<not> recognized op"
  shows "switch_operator rt m a pp op v = throw (Error (''INVALID_CONDITION_OPERATOR '' @ op))"
  using assms unfolding recognized_cases switch_operator_def by simp

lemma switch_qb_fragment:
  "switch_operator rt (JStr ''qb'') a pp op v \<noteq> Inr (Find f)"
proof (cases "recognized op")
  case True
  then show ?thesis
    by (induct rule: recognized_induct) (simp_all add: switch_operator_def result_defs)
next
  case False
  then show ?thesis by (simp add: switch_default throw_def)
qed

lemma switch_message:
  assumes "recognized op" "switch_operator rt m a pp op v = Inl e"
  shows "map_of operandError op = Some (message e) \<and> name e = ''Error''"
  using assms
  by (induct rule: recognized_induct)
     (auto simp add: switch_operator_def result_defs operandError_def Error_def split: if_splits)

lemma switch_isl:
  "isl (switch_operator rt m a pp op v) = isl (switch_operator rt' m' a' pp' op v)"
proof (cases "recognized op")
  case True
  then show ?thesis
    by (induct rule: recognized_induct) (simp_all add: switch_operator_def result_defs)
next
  case False
  then show ?thesis by (simp add: switch_default throw_def)
qed

subsection \<open>The validation steps\<close>

lemma trim_blank: "length (trim s) = 0 \<longleftrightarrow> blank s"
proof
  assume "length (trim s) = 0"
  then have all: "\<forall>c \<in> set (dropWhile is_space s). is_space c"
    by (auto simp add: trim_def dropWhile_eq_Nil_conv dest: set_dropWhileD)
  have "dropWhile is_space s = []"
  proof (rule ccontr)
    assume ne: "dropWhile is_space s \<noteq> []"
    then have "\<not> is_space (hd (dropWhile is_space s))" by (rule hd_dropWhile)
    moreover from ne have "hd (dropWhile is_space s) \<in> set (dropWhile is_space s)" by simp
    ultimately show False using all by blast
  qed
  then show "blank s" unfolding blank_def dropWhile_eq_Nil_conv .
next
  assume "blank s"
  then have "dropWhile is_space s = []" unfolding blank_def dropWhile_eq_Nil_conv .
  then show "length (trim s) = 0" by (simp only: trim_def rev.simps dropWhile.simps list.size)
qed

lemma alias_check:
  "((typeof a \<noteq> ''string'' \<or> length (trim (str a)) = 0) \<and> m = JStr ''qb'') = invalid_field_reference m a"
  using trim_blank by (cases a) (auto simp add: invalid_field_reference_def str_def simp del: length_0_conv)

lemma parseCondition_unsupported:
  "unsupported_target m \<Longrightarrow> parseCondition rt u m a c = throw (Error ''UNSUPPORTED_CONDITION_FOR_VALUE'')"
  by (simp add: parseCondition_def unsupported_target_def)

lemma target_check: "\<not> unsupported_target m \<Longrightarrow> (m \<noteq> JStr ''qb'' \<and> m \<noteq> JStr ''find'') = False"
  by (simp add: unsupported_target_def)

lemma parseCondition_alias:
  assumes "\<not> unsupported_target m" "invalid_field_reference m a"
  shows "parseCondition rt u m a c = throw (Error ''ALIAS_MUST_BE_A_NON_EMPTY_STRING'')"
  unfolding parseCondition_def
  by (simp only: target_check [OF assms(1)] alias_check assms(2) if_False if_True)

lemma parseCondition_absent:
  assumes "\<not> unsupported_target m" "\<not> invalid_field_reference m a" "absent c"
  shows "parseCondition rt u m a c = throw (Error ''CONDITION_CANNOT_BE_UNDEFINED_OR_NULL'')"
  using assms(3) unfolding parseCondition_def
  apply (simp only: target_check [OF assms(1)] alias_check assms(2) if_False if_True)
  apply (simp add: absent_def)
  done

lemma parseCondition_key_count:
  assumes "\<not> unsupported_target m" "\<not> invalid_field_reference m a"
    and "object_not_array c" "length (Object_keys c) \<noteq> 1"
  shows "parseCondition rt u m a c = throw (Error ''CONDITION_OBJECT_MUST_HAVE_EXACTLY_ONE_KEY'')"
  using assms(3,4) unfolding parseCondition_def
  apply (simp only: target_check [OF assms(1)] alias_check assms(2) if_False if_True)
  apply (cases c)
  apply (simp_all add: object_not_array_def)
  done

lemma parseCondition_single:
  assumes "\<not> unsupported_target m" "\<not> invalid_field_reference m a"
    and "object_not_array c" "Object_entries c = [(op, v)]"
  shows "parseCondition rt u m a c =
    (if absent v then throw (Error ''CONDITION_VALUE_CANNOT_BE_UNDEFINED_OR_NULL'')
     else switch_operator rt m (template rt a) (replace_dashes u @ ''_'' @ remove_first_dollar op) op v)"
proof -
  have keys: "length (Object_keys c) = 1"
    using assms(4) by (simp add: Object_keys_def Object_entries_def)
  show ?thesis
    using assms(3) unfolding parseCondition_def
    apply (simp only: target_check [OF assms(1)] alias_check assms(2) assms(4) keys if_False if_True)
    apply (cases c)
    apply (simp_all add: object_not_array_def absent_def)
    done
qed

lemma parseCondition_bare:
  assumes "\<not> unsupported_target m" "\<not> invalid_field_reference m a"
    and "\<not> absent c" "\<not> object_not_array c"
  shows "parseCondition rt u m a c =
    (if isArray c \<and> every scalar_item (items c) then
       (if m = JStr ''qb''
        then fragment (template rt a @ '' IN (:...'' @ replace_dashes u @ ''_in_'' @ template rt a @ '')'')
               [(replace_dashes u @ ''_in_'' @ template rt a, c)]
        else operator (In c))
     else if c = JStr ''$isNull'' then
       (if m = JStr ''qb'' then fragment_only (template rt a @ '' IS NULL'') else operator IsNull)
     else if c = JStr ''$isNotNull'' then
       (if m = JStr ''qb'' then fragment_only (template rt a @ '' IS NOT NULL'') else operator (Not_op IsNull))
     else if typeof c = ''string'' \<or> typeof c = ''number'' \<or> typeof c = ''boolean'' then
       (if m = JStr ''qb''
        then fragment (template rt a @ '' = :'' @ replace_dashes u @ ''_eq_'' @ template rt a)
               [(replace_dashes u @ ''_eq_'' @ template rt a, c)]
        else operator (Equal c))
     else throw (Error ''INVALID_CONDITION''))"
  using assms(3,4) unfolding parseCondition_def
  apply (simp only: target_check [OF assms(1)] alias_check assms(2) if_False if_True)
  apply (cases c)
  apply (simp_all add: object_not_array_def absent_def)
  done

lemma object_cases:
  assumes "object_not_array c"
  obtains (count) "length (Object_keys c) \<noteq> 1" | (single) op v where "Object_entries c = [(op, v)]"
proof (cases "length (Object_keys c) = 1")
  case True
  then obtain e where "own_entries c = [e]"
    by (auto simp add: Object_keys_def length_Suc_conv)
  then show ?thesis using single [of "fst e" "snd e"] by (simp add: Object_entries_def)
next
  case False
  then show ?thesis using count by simp
qed

lemma targets_supported [simp]:
  "\<not> unsupported_target (JStr ''qb'')" "\<not> unsupported_target (JStr ''find'')"
  by (simp_all add: unsupported_target_def)

lemma field_reference_valid [simp]:
  "invalid_field_reference (JStr ''qb'') (JStr f) = blank f"
  "\<not> invalid_field_reference (JStr ''find'') a"
  by (simp_all add: invalid_field_reference_def)

lemma JObj_single [simp]:
  "object_not_array (JObj kvs)" "Object_entries (JObj kvs) = kvs" "Object_keys (JObj kvs) = map fst kvs"
  by (simp_all add: object_not_array_def Object_entries_def Object_keys_def)

lemma template_JStr [simp]: "template rt (JStr s) = s"
  by (simp add: template_def)

lemma operandError_message:
  "map_of operandError op = Some msg \<Longrightarrow> msg \<noteq> ''CONDITION_OPERATOR_MUST_BE_A_STRING''"
  by (auto simp add: operandError_def split: if_splits)

subsection \<open>The check that the operator key is a string\<close>

text \<open>
  Claim C9. The keys that \<^verbatim>\<open>Object.entries\<close> yields are strings, so the test
  \<^verbatim>\<open>typeof conditionOperator !== 'string'\<close> never holds, and no other branch raises an error
  with that message: whatever the target mode, the field reference and the condition are,
  \<^verbatim>\<open>parseCondition\<close> never fails with \<^verbatim>\<open>CONDITION_OPERATOR_MUST_BE_A_STRING\<close>.
\<close>

theorem operator_key_check_unreachable:
  "\<not> (\<exists>e. parseCondition rt u conditionFor a condition = Inl e
         \<and> message e = ''CONDITION_OPERATOR_MUST_BE_A_STRING'')"
proof (rule notI, elim exE conjE)
  fix e
  assume res: "parseCondition rt u conditionFor a condition = Inl e"
    and msg: "message e = ''CONDITION_OPERATOR_MUST_BE_A_STRING''"
  consider (target) "unsupported_target conditionFor"
    | (field) "\<not> unsupported_target conditionFor" "invalid_field_reference conditionFor a"
    | (valid) "\<not> unsupported_target conditionFor" "\<not> invalid_field_reference conditionFor a"
    by blast
  then show False
  proof cases
    case target
    with res msg show False by (auto simp add: parseCondition_unsupported throw_def Error_def)
  next
    case field
    with res msg show False by (auto simp add: parseCondition_alias throw_def Error_def)
  next
    case valid
    show False
    proof (cases "absent condition")
      case True
      with valid res msg show False by (auto simp add: parseCondition_absent throw_def Error_def)
    next
      case present: False
      show False
      proof (cases "object_not_array condition")
        case True
        then show False
        proof (cases rule: object_cases)
          case count
          with valid True res msg show False by (auto simp add: parseCondition_key_count throw_def Error_def)
        next
          case (single op v)
          note sw = parseCondition_single [OF valid True single, of rt u]
          show False
          proof (cases "absent v")
            case True
            with sw res msg show False by (auto simp add: throw_def Error_def)
          next
            case False
            show False
            proof (cases "recognized op")
              case True
              with sw res False
              have "map_of operandError op = Some (message e)"
                using switch_message by simp
              with msg show False using operandError_message by simp
            next
              case unknown: False
              with sw res False msg show False by (auto simp add: switch_default throw_def Error_def)
            qed
          qed
        qed
      next
        case False
        from res msg show False
          unfolding parseCondition_bare [OF valid present False]
          by (auto simp add: result_defs Error_def split: if_splits)
      qed
    qed
  qed
qed

text \<open>
  The theorem at the condition \<^verbatim>\<open>{ 3: "sd" }\<close> of the repository's tests, whose numeric key
  is enumerated as the string \<^verbatim>\<open>"3"\<close>: the error is the one for an unknown operator.
\<close>

theorem operator_key_check_unreachable_witness:
  "parseCondition sample_runtime ''9b1deb4d-3b7d-4bad-9bdd-2b0d7b3dcb6d'' (JStr ''qb'') (JStr ''field'')
       (JObj [(''3'', JStr ''sd'')])
     = throw (Error ''INVALID_CONDITION_OPERATOR 3'')
   \<and> \<not> (\<exists>e. parseCondition sample_runtime ''9b1deb4d-3b7d-4bad-9bdd-2b0d7b3dcb6d'' (JStr ''qb'')
              (JStr ''field'') (JObj [(''3'', JStr ''sd'')]) = Inl e
            \<and> message e = ''CONDITION_OPERATOR_MUST_BE_A_STRING'')"
  using operator_key_check_unreachable
    [of sample_runtime "''9b1deb4d-3b7d-4bad-9bdd-2b0d7b3dcb6d''" "JStr ''qb''" "JStr ''field''"
        "JObj [(''3'', JStr ''sd'')]"]
  by (simp add: parseCondition_single blank_def is_space_def absent_def switch_default recognized_cases)

subsection \<open>Single operators and bare conditions\<close>

lemma switch_equalTo:
  "switch_operator rt m a pp ''$equalTo'' v =
    (if typeof v = ''string'' \<or> typeof v = ''number'' \<or> typeof v = ''boolean'' \<or> instanceof_Date v then
       (if m = JStr ''qb''
        then fragment (a @ '' = :'' @ pp @ ''_'' @ a) [(pp @ ''_'' @ a, v)]
        else operator (Equal v))
     else throw (Error ''$EQUAL_TO_OPERATOR_MUST_HAVE_A_STRING_NUMBER_BOOLEAN_OR_DATE_VALUE''))"
  by (simp add: switch_operator_def)

lemma switch_notEqualTo:
  "switch_operator rt m a pp ''$notEqualTo'' v =
    (if typeof v = ''string'' \<or> typeof v = ''number'' \<or> typeof v = ''boolean'' \<or> instanceof_Date v then
       (if m = JStr ''qb''
        then fragment (a @ '' != :'' @ pp @ ''_'' @ a) [(pp @ ''_'' @ a, v)]
        else operator (Not_op (Equal v)))
     else throw (Error ''$NOT_EQUAL_TO_OPERATOR_MUST_HAVE_A_STRING_NUMBER_BOOLEAN_OR_DATE_VALUE''))"
  by (simp add: switch_operator_def)

lemma switch_jsonHasKey:
  "switch_operator rt m a pp ''$jsonHasKey'' v =
    (if m = JStr ''qb''
     then fragment (a @ '' ? :'' @ pp @ ''_'' @ a @ ''_key'') [(pp @ ''_'' @ a @ ''_key'', v)]
     else operator (Raw (\<lambda>alias. alias @ '' ? :'' @ pp @ ''_'' @ a @ ''_key'') [(pp @ ''_'' @ a @ ''_key'', v)]))"
  by (simp add: switch_operator_def)

lemma scalar_not_object:
  "typeof v = ''string'' \<or> typeof v = ''number'' \<or> typeof v = ''boolean'' \<Longrightarrow>
     \<not> absent v \<and> \<not> object_not_array v \<and> \<not> isArray v \<and> \<not> instanceof_Date v"
  by (cases v) (simp_all add: absent_def object_not_array_def)

lemma bare_Date_rejected:
  assumes "\<not> unsupported_target m" "\<not> invalid_field_reference m a"
  shows "parseCondition rt u m a (JDate t) = throw (Error ''CONDITION_OBJECT_MUST_HAVE_EXACTLY_ONE_KEY'')"
  using assms by (simp add: parseCondition_key_count object_not_array_def Object_keys_def)

text \<open>
  Claim C10. The empty array as a bare condition is accepted: the test on every element
  holds for no element at all. For a field reference \<open>f\<close> that is not blank, fragment
  mode returns the membership fragment \<^verbatim>\<open>f IN (:...p)\<close> with the one parameter
  \<^verbatim>\<open>p = <id>_in_f\<close> bound to the empty array; operator mode returns \<^verbatim>\<open>In([])\<close>, whatever the
  field reference is.
\<close>

theorem empty_array_is_membership:
  assumes "\<not> blank f"
  shows "parseCondition rt u (JStr ''qb'') (JStr f) (JArr []) =
           Inr (QB \<lparr>query = f @ '' IN (:...'' @ replace_dashes u @ ''_in_'' @ f @ '')'',
                    parameters = Some [(replace_dashes u @ ''_in_'' @ f, JArr [])]\<rparr>)
       \<and> parseCondition rt u (JStr ''find'') a (JArr []) = Inr (Find (In (JArr [])))"
  using assms
  by (simp add: parseCondition_bare absent_def object_not_array_def every_def result_defs)

text \<open>The theorem at the field reference \<^verbatim>\<open>f\<close>.\<close>

theorem empty_array_is_membership_witness:
  "\<not> blank ''f''
   \<and> parseCondition sample_runtime ''9b1deb4d-3b7d-4bad-9bdd-2b0d7b3dcb6d'' (JStr ''qb'') (JStr ''f'') (JArr []) =
       Inr (QB \<lparr>query = ''f IN (:...9b1deb4d_3b7d_4bad_9bdd_2b0d7b3dcb6d_in_f)'',
                parameters = Some [(''9b1deb4d_3b7d_4bad_9bdd_2b0d7b3dcb6d_in_f'', JArr [])]\<rparr>)
   \<and> parseCondition sample_runtime ''9b1deb4d-3b7d-4bad-9bdd-2b0d7b3dcb6d'' (JStr ''find'') (JStr ''f'') (JArr []) =
       Inr (Find (In (JArr [])))"
  using empty_array_is_membership
    [of "''f''" sample_runtime "''9b1deb4d-3b7d-4bad-9bdd-2b0d7b3dcb6d''" "JStr ''f''"]
  by (simp add: blank_def is_space_def replace_dashes_def)

text \<open>
  Every fragment of the switch, the one of \<^verbatim>\<open>$notEqualTo\<close> apart, is the field alias
  followed by the text that the operator map lists for the operator.
\<close>

lemma fragments_use_operatorMap:
  assumes "recognized op" "op \<noteq> ''$notEqualTo''"
    and "switch_operator rt (JStr ''qb'') a pp op v = Inr (QB r)"
  shows "\<exists>rest. query r = a @ '' '' @ the (map_of operatorMap op) @ '' '' @ rest"
  using assms
  by (induct rule: recognized_induct)
     (auto simp add: switch_operator_def result_defs operatorMap_def split: if_splits)

text \<open>
  Claim C2 says that \<^verbatim>\<open>{$notEqualTo: v}\<close> compiles in fragment mode to \<^verbatim>\<open>f <> :p\<close>. The
  operator map of the source lists \<^verbatim>\<open><>\<close> for \<^verbatim>\<open>$notEqualTo\<close>, but the case of the switch
  writes \<^verbatim>\<open>!=\<close>: for a field reference \<open>f\<close> that is not blank and an operand that is a
  string, a number, a boolean or a \<^verbatim>\<open>Date\<close>, the fragment is \<^verbatim>\<open>f != :p\<close> with
  \<^verbatim>\<open>p = <id>_notEqualTo_f\<close> bound to the operand.
\<close>

theorem notEqualTo_fragment:
  assumes "\<not> blank f"
    and "typeof v = ''string'' \<or> typeof v = ''number'' \<or> typeof v = ''boolean'' \<or> instanceof_Date v"
  shows "parseCondition rt u (JStr ''qb'') (JStr f) (JObj [(''$notEqualTo'', v)]) =
           Inr (QB \<lparr>query = f @ '' != :'' @ replace_dashes u @ ''_notEqualTo_'' @ f,
                    parameters = Some [(replace_dashes u @ ''_notEqualTo_'' @ f, v)]\<rparr>)
       \<and> map_of operatorMap ''$notEqualTo'' = Some ''<>''"
proof -
  from assms(2) have "\<not> absent v" by (cases v) (simp_all add: absent_def)
  with assms show ?thesis
    by (simp add: parseCondition_single switch_notEqualTo result_defs operatorMap_def)
qed

text \<open>The theorem at \<^verbatim>\<open>{$notEqualTo: 1}\<close> on the field \<^verbatim>\<open>f\<close>.\<close>

theorem notEqualTo_fragment_witness:
  "parseCondition sample_runtime ''9b1deb4d-3b7d-4bad-9bdd-2b0d7b3dcb6d'' (JStr ''qb'') (JStr ''f'')
       (JObj [(''$notEqualTo'', JNum (Finite 1))]) =
     Inr (QB \<lparr>query = ''f != :9b1deb4d_3b7d_4bad_9bdd_2b0d7b3dcb6d_notEqualTo_f'',
              parameters = Some [(''9b1deb4d_3b7d_4bad_9bdd_2b0d7b3dcb6d_notEqualTo_f'', JNum (Finite 1))]\<rparr>)
   \<and> map_of operatorMap ''$notEqualTo'' = Some ''<>''"
  using notEqualTo_fragment
    [of "''f''" "JNum (Finite 1)" sample_runtime "''9b1deb4d-3b7d-4bad-9bdd-2b0d7b3dcb6d''"]
  by (simp add: blank_def is_space_def replace_dashes_def)

text \<open>
  Claim C4 says that \<^verbatim>\<open>{$jsonHasKey: v}\<close> fails for every operand that is not a string.
  The case of \<^verbatim>\<open>$jsonHasKey\<close> has no test on its operand: the number 5 compiles.
\<close>

theorem jsonHasKey_non_string_counterexample:
  "typeof (JNum (Finite 5)) \<noteq> ''string''
   \<and> parseCondition sample_runtime ''9b1deb4d-3b7d-4bad-9bdd-2b0d7b3dcb6d'' (JStr ''qb'') (JStr ''f'')
       (JObj [(''$jsonHasKey'', JNum (Finite 5))]) =
     Inr (QB \<lparr>query = ''f ? :9b1deb4d_3b7d_4bad_9bdd_2b0d7b3dcb6d_jsonHasKey_f_key'',
              parameters = Some [(''9b1deb4d_3b7d_4bad_9bdd_2b0d7b3dcb6d_jsonHasKey_f_key'', JNum (Finite 5))]\<rparr>)"
  by (simp add: parseCondition_single switch_jsonHasKey result_defs blank_def is_space_def
      replace_dashes_def absent_def)

text \<open>
  Claim C4 as amended: \<^verbatim>\<open>$jsonHasKey\<close> accepts every operand that is present (not \<^verbatim>\<open>null\<close>,
  not \<^verbatim>\<open>undefined\<close>), string or not. For a field reference \<open>f\<close> that is not blank, fragment
  mode returns \<^verbatim>\<open>f ? :p\<close> with \<^verbatim>\<open>p = <id>_jsonHasKey_f_key\<close> bound to the operand as it is,
  and operator mode returns the raw template with the same parameter.
\<close>

theorem jsonHasKey_any_operand:
  assumes "\<not> blank f" "\<not> absent v"
  shows "parseCondition rt u (JStr ''qb'') (JStr f) (JObj [(''$jsonHasKey'', v)]) =
           Inr (QB \<lparr>query = f @ '' ? :'' @ replace_dashes u @ ''_jsonHasKey_'' @ f @ ''_key'',
                    parameters = Some [(replace_dashes u @ ''_jsonHasKey_'' @ f @ ''_key'', v)]\<rparr>)
       \<and> parseCondition rt u (JStr ''find'') (JStr f) (JObj [(''$jsonHasKey'', v)]) =
           Inr (Find (Raw (\<lambda>alias. alias @ '' ? :'' @ replace_dashes u @ ''_jsonHasKey_'' @ f @ ''_key'')
                        [(replace_dashes u @ ''_jsonHasKey_'' @ f @ ''_key'', v)]))"
  using assms
  by (simp add: parseCondition_single switch_jsonHasKey result_defs)

text \<open>The theorem at the operand \<^verbatim>\<open>true\<close>.\<close>

theorem jsonHasKey_any_operand_witness:
  "\<not> blank ''f'' \<and> \<not> absent (JBool True)
   \<and> parseCondition sample_runtime ''9b1deb4d-3b7d-4bad-9bdd-2b0d7b3dcb6d'' (JStr ''qb'') (JStr ''f'')
       (JObj [(''$jsonHasKey'', JBool True)]) =
     Inr (QB \<lparr>query = ''f ? :9b1deb4d_3b7d_4bad_9bdd_2b0d7b3dcb6d_jsonHasKey_f_key'',
              parameters = Some [(''9b1deb4d_3b7d_4bad_9bdd_2b0d7b3dcb6d_jsonHasKey_f_key'', JBool True)]\<rparr>)"
  using jsonHasKey_any_operand
    [of "''f''" "JBool True" sample_runtime "''9b1deb4d-3b7d-4bad-9bdd-2b0d7b3dcb6d''"]
  by (simp add: blank_def is_space_def replace_dashes_def absent_def)

text \<open>
  Claim C3 says that a bare scalar compiles to the same result as \<^verbatim>\<open>{$equalTo: v}\<close>, up to
  the identifier, the name of the parameter included. On the field \<^verbatim>\<open>f\<close> and with one and
  the same identifier, the bare string \<^verbatim>\<open>"John"\<close> gets the parameter \<^verbatim>\<open><id>_eq_f\<close> and
  \<^verbatim>\<open>{$equalTo: "John"}\<close> the parameter \<^verbatim>\<open><id>_equalTo_f\<close>: the two results are not the same
  up to the identifier.
\<close>

theorem bare_scalar_equalTo_counterexample:
  "parseCondition sample_runtime ''9b1deb4d-3b7d-4bad-9bdd-2b0d7b3dcb6d'' (JStr ''qb'') (JStr ''f'') (JStr ''John'') =
     Inr (QB \<lparr>query = ''f = :9b1deb4d_3b7d_4bad_9bdd_2b0d7b3dcb6d_eq_f'',
              parameters = Some [(''9b1deb4d_3b7d_4bad_9bdd_2b0d7b3dcb6d_eq_f'', JStr ''John'')]\<rparr>)
   \<and> parseCondition sample_runtime ''9b1deb4d-3b7d-4bad-9bdd-2b0d7b3dcb6d'' (JStr ''qb'') (JStr ''f'')
       (JObj [(''$equalTo'', JStr ''John'')]) =
     Inr (QB \<lparr>query = ''f = :9b1deb4d_3b7d_4bad_9bdd_2b0d7b3dcb6d_equalTo_f'',
              parameters = Some [(''9b1deb4d_3b7d_4bad_9bdd_2b0d7b3dcb6d_equalTo_f'', JStr ''John'')]\<rparr>)
   \<and> \<not> same_result ''9b1deb4d_3b7d_4bad_9bdd_2b0d7b3dcb6d'' ''9b1deb4d_3b7d_4bad_9bdd_2b0d7b3dcb6d''
       (parseCondition sample_runtime ''9b1deb4d-3b7d-4bad-9bdd-2b0d7b3dcb6d'' (JStr ''qb'') (JStr ''f'') (JStr ''John''))
       (parseCondition sample_runtime ''9b1deb4d-3b7d-4bad-9bdd-2b0d7b3dcb6d'' (JStr ''qb'') (JStr ''f'')
          (JObj [(''$equalTo'', JStr ''John'')]))"
  by (simp add: parseCondition_single parseCondition_bare switch_equalTo result_defs blank_def is_space_def
      replace_dashes_def absent_def object_not_array_def same_fragment_def same_parameter_def erase_id_def)

text \<open>
  Claim C3 as amended: for a field reference \<open>f\<close> that is not blank and a bare condition
  \<open>v\<close> that is a string other than the two sentinels, a number or a boolean, fragment mode
  returns \<^verbatim>\<open>f = :p\<close> with the single parameter \<^verbatim>\<open>p\<close> bound to \<open>v\<close>, as for
  \<^verbatim>\<open>{$equalTo: v}\<close>, except that the operator segment in the name of the parameter is
  \<^verbatim>\<open>eq\<close> for the bare value and \<^verbatim>\<open>equalTo\<close> for the operator object; in operator mode
  both return \<^verbatim>\<open>Equal(v)\<close>. (A bare \<^verbatim>\<open>Date\<close> is left out: lemma \<open>bare_Date_rejected\<close>.)
\<close>

theorem bare_scalar_is_equality:
  assumes "\<not> blank f"
    and "typeof v = ''string'' \<or> typeof v = ''number'' \<or> typeof v = ''boolean''"
    and "v \<noteq> JStr ''$isNull''" "v \<noteq> JStr ''$isNotNull''"
  shows "parseCondition rt u (JStr ''qb'') (JStr f) v =
           Inr (QB \<lparr>query = f @ '' = :'' @ replace_dashes u @ ''_eq_'' @ f,
                    parameters = Some [(replace_dashes u @ ''_eq_'' @ f, v)]\<rparr>)
       \<and> parseCondition rt u (JStr ''qb'') (JStr f) (JObj [(''$equalTo'', v)]) =
           Inr (QB \<lparr>query = f @ '' = :'' @ replace_dashes u @ ''_equalTo_'' @ f,
                    parameters = Some [(replace_dashes u @ ''_equalTo_'' @ f, v)]\<rparr>)
       \<and> parseCondition rt u (JStr ''find'') a v = Inr (Find (Equal v))
       \<and> parseCondition rt u (JStr ''find'') a (JObj [(''$equalTo'', v)]) = Inr (Find (Equal v))"
proof -
  note v = scalar_not_object [OF assms(2)]
  from v assms show ?thesis
    by (simp add: parseCondition_single parseCondition_bare switch_equalTo result_defs)
qed

text \<open>The theorem at the bare number 30 on the field \<^verbatim>\<open>f\<close>.\<close>

theorem bare_scalar_is_equality_witness:
  "\<not> blank ''f'' \<and> typeof (JNum (Finite 30)) = ''number''
   \<and> parseCondition sample_runtime ''9b1deb4d-3b7d-4bad-9bdd-2b0d7b3dcb6d'' (JStr ''qb'') (JStr ''f'') (JNum (Finite 30)) =
       Inr (QB \<lparr>query = ''f = :9b1deb4d_3b7d_4bad_9bdd_2b0d7b3dcb6d_eq_f'',
                parameters = Some [(''9b1deb4d_3b7d_4bad_9bdd_2b0d7b3dcb6d_eq_f'', JNum (Finite 30))]\<rparr>)
   \<and> parseCondition sample_runtime ''9b1deb4d-3b7d-4bad-9bdd-2b0d7b3dcb6d'' (JStr ''find'') (JStr ''f'')
       (JObj [(''$equalTo'', JNum (Finite 30))]) = Inr (Find (Equal (JNum (Finite 30))))"
  using bare_scalar_is_equality
    [of "''f''" "JNum (Finite 30)" sample_runtime "''9b1deb4d-3b7d-4bad-9bdd-2b0d7b3dcb6d''" "JStr ''f''"]
  by (simp add: blank_def is_space_def replace_dashes_def)

text \<open>
  Claim C6 says that every single-key object whose key is not a recognized operator token
  fails with the error for an unknown operator. The test for an absent operand comes
  before the switch: \<^verbatim>\<open>{$bogus: null}\<close> fails with the error for a missing operand value.
\<close>

theorem unknown_operator_absent_operand_counterexample:
  "\<not> recognized ''$bogus''
   \<and> parseCondition sample_runtime ''9b1deb4d-3b7d-4bad-9bdd-2b0d7b3dcb6d'' (JStr ''qb'') (JStr ''f'')
       (JObj [(''$bogus'', JNull)]) = throw (Error ''CONDITION_VALUE_CANNOT_BE_UNDEFINED_OR_NULL'')
   \<and> parseCondition sample_runtime ''9b1deb4d-3b7d-4bad-9bdd-2b0d7b3dcb6d'' (JStr ''qb'') (JStr ''f'')
       (JObj [(''$bogus'', JNull)]) \<noteq> throw (Error ''INVALID_CONDITION_OPERATOR $bogus'')"
  by (simp add: parseCondition_single blank_def is_space_def absent_def recognized_cases throw_def Error_def)

text \<open>
  Claim C6 as amended: in a call that passes the checks of the target mode and of the
  field reference,
  \<^item> a condition that is an object and not an array, with no key or with two keys or more,
    fails with \<^verbatim>\<open>CONDITION_OBJECT_MUST_HAVE_EXACTLY_ONE_KEY\<close>;
  \<^item> the condition \<^verbatim>\<open>null\<close> or \<^verbatim>\<open>undefined\<close> fails with \<^verbatim>\<open>CONDITION_CANNOT_BE_UNDEFINED_OR_NULL\<close>;
  \<^item> a single-key object whose key is not a recognized operator token and whose operand
    is neither \<^verbatim>\<open>null\<close> nor \<^verbatim>\<open>undefined\<close> fails with \<^verbatim>\<open>INVALID_CONDITION_OPERATOR\<close> followed
    by the token as it is.
\<close>

theorem condition_shape_errors:
  assumes "\<not> unsupported_target m" "\<not> invalid_field_reference m a"
    and "object_not_array c" "length (Object_keys c) \<noteq> 1"
    and "absent c'"
    and "\<not> recognized token" "\<not> absent v"
  shows "parseCondition rt u m a c = throw (Error ''CONDITION_OBJECT_MUST_HAVE_EXACTLY_ONE_KEY'')
       \<and> parseCondition rt u m a c' = throw (Error ''CONDITION_CANNOT_BE_UNDEFINED_OR_NULL'')
       \<and> parseCondition rt u m a (JObj [(token, v)]) = throw (Error (''INVALID_CONDITION_OPERATOR '' @ token))"
  using assms
  by (simp add: parseCondition_key_count parseCondition_absent parseCondition_single switch_default)

text \<open>The theorem at the three conditions of the repository's tests.\<close>

theorem condition_shape_errors_witness:
  "\<not> unsupported_target (JStr ''qb'') \<and> \<not> invalid_field_reference (JStr ''qb'') (JStr ''field'')
   \<and> object_not_array (JObj [(''$in'', JArr [JNum (Finite 1), JNum (Finite 2)]), (''$equalTo'', JStr ''3'')])
   \<and> length (Object_keys (JObj [(''$in'', JArr [JNum (Finite 1), JNum (Finite 2)]), (''$equalTo'', JStr ''3'')])) \<noteq> 1
   \<and> absent JNull \<and> \<not> recognized ''3'' \<and> \<not> absent (JStr ''sd'')
   \<and> parseCondition sample_runtime ''9b1deb4d-3b7d-4bad-9bdd-2b0d7b3dcb6d'' (JStr ''qb'') (JStr ''field'')
       (JObj [(''$in'', JArr [JNum (Finite 1), JNum (Finite 2)]), (''$equalTo'', JStr ''3'')])
       = throw (Error ''CONDITION_OBJECT_MUST_HAVE_EXACTLY_ONE_KEY'')
   \<and> parseCondition sample_runtime ''9b1deb4d-3b7d-4bad-9bdd-2b0d7b3dcb6d'' (JStr ''qb'') (JStr ''field'') JNull
       = throw (Error ''CONDITION_CANNOT_BE_UNDEFINED_OR_NULL'')
   \<and> parseCondition sample_runtime ''9b1deb4d-3b7d-4bad-9bdd-2b0d7b3dcb6d'' (JStr ''qb'') (JStr ''field'')
       (JObj [(''3'', JStr ''sd'')]) = throw (Error ''INVALID_CONDITION_OPERATOR 3'')"
  using condition_shape_errors
    [of "JStr ''qb''" "JStr ''field''"
        "JObj [(''$in'', JArr [JNum (Finite 1), JNum (Finite 2)]), (''$equalTo'', JStr ''3'')]"
        JNull "''3''" "JStr ''sd''" sample_runtime "''9b1deb4d-3b7d-4bad-9bdd-2b0d7b3dcb6d''"]
  by (simp add: blank_def is_space_def absent_def recognized_cases)

subsection \<open>The order of the validation\<close>

text \<open>Every error of \<^verbatim>\<open>parseCondition\<close> is one of eight kinds.\<close>

lemma parseCondition_error_cases:
  assumes res: "parseCondition rt u m a c = Inl e"
  obtains
    (target) "unsupported_target m" "message e = ''UNSUPPORTED_CONDITION_FOR_VALUE''"
  | (field) "invalid_field_reference m a" "message e = ''ALIAS_MUST_BE_A_NON_EMPTY_STRING''"
  | (condition) "message e = ''CONDITION_CANNOT_BE_UNDEFINED_OR_NULL''"
  | (count) "message e = ''CONDITION_OBJECT_MUST_HAVE_EXACTLY_ONE_KEY''"
  | (operand) "message e = ''CONDITION_VALUE_CANNOT_BE_UNDEFINED_OR_NULL''"
  | (unknown) op where "message e = ''INVALID_CONDITION_OPERATOR '' @ op"
  | (shape) op where "map_of operandError op = Some (message e)"
  | (invalid) "message e = ''INVALID_CONDITION''"
proof -
  consider (t) "unsupported_target m"
    | (f) "\<not> unsupported_target m" "invalid_field_reference m a"
    | (valid) "\<not> unsupported_target m" "\<not> invalid_field_reference m a"
    by blast
  then show thesis
  proof cases
    case t
    with res target show thesis by (auto simp add: parseCondition_unsupported throw_def Error_def)
  next
    case f
    with res field show thesis by (auto simp add: parseCondition_alias throw_def Error_def)
  next
    case valid
    show thesis
    proof (cases "absent c")
      case True
      with valid res condition show thesis by (auto simp add: parseCondition_absent throw_def Error_def)
    next
      case present: False
      show thesis
      proof (cases "object_not_array c")
        case True
        then show thesis
        proof (cases rule: object_cases)
          case count
          with valid True res that(4) show thesis
            by (auto simp add: parseCondition_key_count throw_def Error_def)
        next
          case (single op v)
          note sw = parseCondition_single [OF valid True single, of rt u]
          show thesis
          proof (cases "absent v")
            case True
            with sw res operand show thesis by (auto simp add: throw_def Error_def)
          next
            case False
            show thesis
            proof (cases "recognized op")
              case True
              with sw res False have "map_of operandError op = Some (message e)"
                using switch_message by simp
              then show thesis by (rule shape)
            next
              case no: False
              with sw res False have "message e = ''INVALID_CONDITION_OPERATOR '' @ op"
                by (auto simp add: switch_default throw_def Error_def)
              then show thesis by (rule unknown)
            qed
          qed
        qed
      next
        case False
        from res have "message e = ''INVALID_CONDITION''"
          unfolding parseCondition_bare [OF valid present False]
          by (auto simp add: result_defs Error_def split: if_splits)
        then show thesis by (rule invalid)
      qed
    qed
  qed
qed

lemma operandError_not_alias:
  "map_of operandError op = Some msg \<Longrightarrow> msg \<noteq> ''ALIAS_MUST_BE_A_NON_EMPTY_STRING''"
  by (auto simp add: operandError_def split: if_splits)

lemma alias_error_only_for_invalid_field_reference:
  assumes "parseCondition rt u m a c = Inl e" "message e = ''ALIAS_MUST_BE_A_NON_EMPTY_STRING''"
  shows "invalid_field_reference m a"
  using assms(1)
proof (cases rule: parseCondition_error_cases)
  case (shape op)
  with assms(2) show ?thesis using operandError_not_alias by simp
qed (use assms(2) in simp_all)

text \<open>
  Claim C5. The validation stops at the first violation, in this order, whatever else is
  wrong with the input:
  \<^enum> an unrecognized target mode \<open>m1\<close> fails with \<^verbatim>\<open>UNSUPPORTED_CONDITION_FOR_VALUE\<close>, for
    every field reference \<open>a'\<close> and every condition \<open>c'\<close>;
  \<^enum> in fragment mode a field reference \<open>a2\<close> that is not a string, or is empty or white
    space only, fails with \<^verbatim>\<open>ALIAS_MUST_BE_A_NON_EMPTY_STRING\<close>, for every condition \<open>c'\<close>;
  \<^enum> with a target mode \<open>m\<close> and a field reference \<open>a\<close> that pass, the absent condition
    \<open>c3\<close> fails with \<^verbatim>\<open>CONDITION_CANNOT_BE_UNDEFINED_OR_NULL\<close>;
  \<^enum> then an object \<open>c4\<close> that has not exactly one key fails with
    \<^verbatim>\<open>CONDITION_OBJECT_MUST_HAVE_EXACTLY_ONE_KEY\<close>, and a single key with the absent operand
    \<open>v5\<close> fails with \<^verbatim>\<open>CONDITION_VALUE_CANNOT_BE_UNDEFINED_OR_NULL\<close>, for every key \<open>k'\<close>,
    recognized or not;
  \<^enum> then an unrecognized token \<open>k6\<close> with a present operand fails with
    \<^verbatim>\<open>INVALID_CONDITION_OPERATOR\<close> and the token;
  \<^enum> and when a recognized token \<open>k7\<close> with a present operand fails, the error is the
    operand error of that operator.
  In operator mode the field reference is never validated: no field reference and no
  condition give the error of step 2.
\<close>

theorem validation_order:
  assumes "unsupported_target m1"
    and "invalid_field_reference (JStr ''qb'') a2"
    and "\<not> unsupported_target m" "\<not> invalid_field_reference m a"
    and "absent c3"
    and "object_not_array c4" "length (Object_keys c4) \<noteq> 1"
    and "absent v5"
    and "\<not> absent v" "\<not> recognized k6"
    and "recognized k7" "parseCondition rt u m a (JObj [(k7, v)]) = Inl e"
  shows "parseCondition rt u m1 a' c' = throw (Error ''UNSUPPORTED_CONDITION_FOR_VALUE'')
       \<and> parseCondition rt u (JStr ''qb'') a2 c' = throw (Error ''ALIAS_MUST_BE_A_NON_EMPTY_STRING'')
       \<and> parseCondition rt u m a c3 = throw (Error ''CONDITION_CANNOT_BE_UNDEFINED_OR_NULL'')
       \<and> parseCondition rt u m a c4 = throw (Error ''CONDITION_OBJECT_MUST_HAVE_EXACTLY_ONE_KEY'')
       \<and> parseCondition rt u m a (JObj [(k', v5)]) = throw (Error ''CONDITION_VALUE_CANNOT_BE_UNDEFINED_OR_NULL'')
       \<and> parseCondition rt u m a (JObj [(k6, v)]) = throw (Error (''INVALID_CONDITION_OPERATOR '' @ k6))
       \<and> map_of operandError k7 = Some (message e)
       \<and> parseCondition rt u (JStr ''find'') a' c' \<noteq> throw (Error ''ALIAS_MUST_BE_A_NON_EMPTY_STRING'')"
proof -
  have "map_of operandError k7 = Some (message e)"
    using assms(3,4,9,11,12) switch_message [of k7 rt m _ _ v e]
    by (simp add: parseCondition_single)
  moreover have "parseCondition rt u (JStr ''find'') a' c' \<noteq> throw (Error ''ALIAS_MUST_BE_A_NON_EMPTY_STRING'')"
    using alias_error_only_for_invalid_field_reference [of rt u "JStr ''find''" a' c']
    by (auto simp add: throw_def Error_def)
  ultimately show ?thesis
    using assms
    by (simp add: parseCondition_unsupported parseCondition_alias parseCondition_absent
        parseCondition_key_count parseCondition_single switch_default)
qed

text \<open>
  The theorem at the inputs of the claim: the unrecognized mode with an empty field
  reference and a \<^verbatim>\<open>null\<close> condition, and fragment mode with an empty field reference and a
  \<^verbatim>\<open>null\<close> condition.
\<close>

theorem validation_order_witness:
  "unsupported_target (JStr ''unsupported'')
   \<and> invalid_field_reference (JStr ''qb'') (JStr [])
   \<and> \<not> unsupported_target (JStr ''qb'') \<and> \<not> invalid_field_reference (JStr ''qb'') (JStr ''field'')
   \<and> absent JNull \<and> object_not_array (JObj []) \<and> length (Object_keys (JObj [])) \<noteq> 1
   \<and> \<not> absent (JObj [(''invalid'', JStr ''value'')]) \<and> \<not> recognized ''$bogus'' \<and> recognized ''$gte''
   \<and> parseCondition sample_runtime ''9b1deb4d-3b7d-4bad-9bdd-2b0d7b3dcb6d'' (JStr ''qb'') (JStr ''field'')
        (JObj [(''$gte'', JObj [(''invalid'', JStr ''value'')])])
        = Inl (Error ''$GTE_OPERATOR_MUST_HAVE_A_NUMBER_STRING_OR_DATE'')
   \<and> parseCondition sample_runtime ''9b1deb4d-3b7d-4bad-9bdd-2b0d7b3dcb6d'' (JStr ''unsupported'') (JStr []) JNull
        = throw (Error ''UNSUPPORTED_CONDITION_FOR_VALUE'')
   \<and> parseCondition sample_runtime ''9b1deb4d-3b7d-4bad-9bdd-2b0d7b3dcb6d'' (JStr ''qb'') (JStr []) JNull
        = throw (Error ''ALIAS_MUST_BE_A_NON_EMPTY_STRING'')
   \<and> parseCondition sample_runtime ''9b1deb4d-3b7d-4bad-9bdd-2b0d7b3dcb6d'' (JStr ''qb'') (JStr ''field'') JNull
        = throw (Error ''CONDITION_CANNOT_BE_UNDEFINED_OR_NULL'')
   \<and> parseCondition sample_runtime ''9b1deb4d-3b7d-4bad-9bdd-2b0d7b3dcb6d'' (JStr ''qb'') (JStr ''field'') (JObj [])
        = throw (Error ''CONDITION_OBJECT_MUST_HAVE_EXACTLY_ONE_KEY'')
   \<and> parseCondition sample_runtime ''9b1deb4d-3b7d-4bad-9bdd-2b0d7b3dcb6d'' (JStr ''qb'') (JStr ''field'')
        (JObj [(''$bogus'', JNull)]) = throw (Error ''CONDITION_VALUE_CANNOT_BE_UNDEFINED_OR_NULL'')
   \<and> parseCondition sample_runtime ''9b1deb4d-3b7d-4bad-9bdd-2b0d7b3dcb6d'' (JStr ''qb'') (JStr ''field'')
        (JObj [(''$bogus'', JObj [(''invalid'', JStr ''value'')])])
        = throw (Error ''INVALID_CONDITION_OPERATOR $bogus'')
   \<and> map_of operandError ''$gte'' = Some ''$GTE_OPERATOR_MUST_HAVE_A_NUMBER_STRING_OR_DATE''
   \<and> parseCondition sample_runtime ''9b1deb4d-3b7d-4bad-9bdd-2b0d7b3dcb6d'' (JStr ''find'') (JStr []) JNull
        \<noteq> throw (Error ''ALIAS_MUST_BE_A_NON_EMPTY_STRING'')"
proof -
  have gte: "parseCondition sample_runtime ''9b1deb4d-3b7d-4bad-9bdd-2b0d7b3dcb6d'' (JStr ''qb'') (JStr ''field'')
        (JObj [(''$gte'', JObj [(''invalid'', JStr ''value'')])])
        = Inl (Error ''$GTE_OPERATOR_MUST_HAVE_A_NUMBER_STRING_OR_DATE'')"
    by (simp add: parseCondition_single blank_def is_space_def absent_def switch_operator_def throw_def)
  have pre: "unsupported_target (JStr ''unsupported'')" "invalid_field_reference (JStr ''qb'') (JStr [])"
    "\<not> unsupported_target (JStr ''qb'')" "\<not> invalid_field_reference (JStr ''qb'') (JStr ''field'')"
    "absent JNull" "object_not_array (JObj [])" "length (Object_keys (JObj [])) \<noteq> 1"
    "\<not> absent (JObj [(''invalid'', JStr ''value'')])" "\<not> recognized ''$bogus''" "recognized ''$gte''"
    by (simp_all add: unsupported_target_def blank_def is_space_def absent_def recognized_cases)
  show ?thesis
    using validation_order [OF pre(1-6) pre(7) pre(5) pre(8) pre(9) pre(10) gte, of "JStr []" JNull "''$bogus''"]
      gte pre
    by (simp add: Error_def)
qed

subsection \<open>Compilation up to the identifier\<close>

lemma same_text_refl: "same_text i j s s"
  by (induction s) (auto intro: same_text.intros)

lemma same_text_ids: "same_text i j i j"
  using same_Id [OF same_Nil, of i j] by simp

lemma same_text_append:
  assumes "same_text i j s t" "same_text i j s' t'"
  shows "same_text i j (s @ s') (t @ t')"
  using assms
proof (induction rule: same_text.induct)
  case same_Nil
  then show ?case by simp
next
  case (same_Cons s t c)
  then show ?case by (simp add: same_text.same_Cons)
next
  case (same_Id s t)
  then show ?case using same_text.same_Id [of i j "s @ s'" "t @ t'"] by simp
qed

lemmas same_text_intros = same_text_refl same_text_ids same_Cons same_text_append

lemma switch_same:
  "same_result i j (switch_operator rt (JStr ''qb'') a (i @ s) op v)
                   (switch_operator rt (JStr ''qb'') a (j @ s) op v)"
proof (cases "recognized op")
  case True
  then show ?thesis
    by (induct rule: recognized_induct)
       (auto simp add: switch_operator_def result_defs same_fragment_def same_parameter_def erase_id_def
             intro!: same_text_intros)
next
  case False
  then show ?thesis by (simp add: switch_default throw_def)
qed

text \<open>
  Claim C7. Two runs of the compiler in fragment mode on the same field reference and the
  same condition, with the identifiers \<open>u1\<close> and \<open>u2\<close> from \<^verbatim>\<open>uuid()\<close>, end the same way
  up to the identifier: both fail with the same error, or both return a fragment; the two
  queries are the same text once the second identifier stands where the first one did,
  the parameters correspond one by one, their names are equal once the identifier in
  front is erased, and their values are equal.
\<close>

theorem compilation_same_up_to_id:
  "same_result (replace_dashes u1) (replace_dashes u2)
     (parseCondition rt u1 (JStr ''qb'') a c) (parseCondition rt u2 (JStr ''qb'') a c)"
proof (cases "invalid_field_reference (JStr ''qb'') a")
  case True
  then show ?thesis by (simp add: parseCondition_alias throw_def)
next
  case valid: False
  note ok = targets_supported(1) valid
  show ?thesis
  proof (cases "absent c")
    case True
    then show ?thesis using ok by (simp add: parseCondition_absent throw_def)
  next
    case present: False
    show ?thesis
    proof (cases "object_not_array c")
      case True
      then show ?thesis
      proof (cases rule: object_cases)
        case count
        with ok True show ?thesis by (simp add: parseCondition_key_count throw_def)
      next
        case (single op v)
        show ?thesis
          unfolding parseCondition_single [OF ok True single]
          using switch_same [of "replace_dashes u1" "replace_dashes u2" rt "template rt a"
              "''_'' @ remove_first_dollar op" op v]
          by (simp add: throw_def)
      qed
    next
      case False
      show ?thesis
        unfolding parseCondition_bare [OF ok present False]
        by (auto simp add: result_defs same_fragment_def same_parameter_def erase_id_def
            intro!: same_text_intros)
    qed
  qed
qed

text \<open>The theorem at \<^verbatim>\<open>{$between: [1, 10]}\<close> on the field \<^verbatim>\<open>f\<close>, with two identifiers.\<close>

theorem compilation_same_up_to_id_witness:
  "parseCondition sample_runtime ''9b1deb4d-3b7d-4bad-9bdd-2b0d7b3dcb6d'' (JStr ''qb'') (JStr ''f'')
       (JObj [(''$between'', JArr [JNum (Finite 1), JNum (Finite 10)])]) =
     Inr (QB \<lparr>query = ''f BETWEEN :9b1deb4d_3b7d_4bad_9bdd_2b0d7b3dcb6d_between_f_start AND :9b1deb4d_3b7d_4bad_9bdd_2b0d7b3dcb6d_between_f_end'',
              parameters = Some [(''9b1deb4d_3b7d_4bad_9bdd_2b0d7b3dcb6d_between_f_start'', JNum (Finite 1)),
                                 (''9b1deb4d_3b7d_4bad_9bdd_2b0d7b3dcb6d_between_f_end'', JNum (Finite 10))]\<rparr>)
   \<and> parseCondition sample_runtime ''1c9e6679-7425-40de-944b-e07fc1f90ae7'' (JStr ''qb'') (JStr ''f'')
       (JObj [(''$between'', JArr [JNum (Finite 1), JNum (Finite 10)])]) =
     Inr (QB \<lparr>query = ''f BETWEEN :1c9e6679_7425_40de_944b_e07fc1f90ae7_between_f_start AND :1c9e6679_7425_40de_944b_e07fc1f90ae7_between_f_end'',
              parameters = Some [(''1c9e6679_7425_40de_944b_e07fc1f90ae7_between_f_start'', JNum (Finite 1)),
                                 (''1c9e6679_7425_40de_944b_e07fc1f90ae7_between_f_end'', JNum (Finite 10))]\<rparr>)
   \<and> same_result ''9b1deb4d_3b7d_4bad_9bdd_2b0d7b3dcb6d'' ''1c9e6679_7425_40de_944b_e07fc1f90ae7''
       (parseCondition sample_runtime ''9b1deb4d-3b7d-4bad-9bdd-2b0d7b3dcb6d'' (JStr ''qb'') (JStr ''f'')
          (JObj [(''$between'', JArr [JNum (Finite 1), JNum (Finite 10)])]))
       (parseCondition sample_runtime ''1c9e6679-7425-40de-944b-e07fc1f90ae7'' (JStr ''qb'') (JStr ''f'')
          (JObj [(''$between'', JArr [JNum (Finite 1), JNum (Finite 10)])]))"
proof -
  have ids: "replace_dashes ''9b1deb4d-3b7d-4bad-9bdd-2b0d7b3dcb6d'' = ''9b1deb4d_3b7d_4bad_9bdd_2b0d7b3dcb6d''"
    "replace_dashes ''1c9e6679-7425-40de-944b-e07fc1f90ae7'' = ''1c9e6679_7425_40de_944b_e07fc1f90ae7''"
    by (simp_all add: replace_dashes_def)
  have between: "parseCondition sample_runtime u (JStr ''qb'') (JStr ''f'')
       (JObj [(''$between'', JArr [JNum (Finite 1), JNum (Finite 10)])]) =
     Inr (QB \<lparr>query = ''f BETWEEN :'' @ replace_dashes u @ ''_between_f_start AND :'' @ replace_dashes u @ ''_between_f_end'',
              parameters = Some [(replace_dashes u @ ''_between_f_start'', JNum (Finite 1)),
                                 (replace_dashes u @ ''_between_f_end'', JNum (Finite 10))]\<rparr>)" for u
    by (simp add: parseCondition_single blank_def is_space_def absent_def switch_operator_def result_defs
        every_def scalar_item_def)
  show ?thesis
    using compilation_same_up_to_id [of "''9b1deb4d-3b7d-4bad-9bdd-2b0d7b3dcb6d''"
        "''1c9e6679-7425-40de-944b-e07fc1f90ae7''" sample_runtime "JStr ''f''"
        "JObj [(''$between'', JArr [JNum (Finite 1), JNum (Finite 10)])]"]
    unfolding between ids by simp
qed

section \<open>Properties of the sort directive\<close>

lemma split_dot_no_dot: "CHR ''.'' \<notin> set s \<Longrightarrow> split_dot s = [s]"
  by (induction s) auto

lemma split_dot_one_dot:
  "CHR ''.'' \<notin> set r \<Longrightarrow> split_dot (r @ ''.'' @ s) = r # split_dot s"
  by (induction r) auto

lemma fieldAlias_of_dotted:
  assumes "CHR ''.'' \<notin> set relation" "CHR ''.'' \<notin> set relatedField"
  shows "fieldAlias_of base (relation @ ''.'' @ relatedField) = relation @ ''.'' @ relatedField"
  using assms split_dot_one_dot [of relation relatedField]
  by (simp add: fieldAlias_of_def includes_dot_def split_dot_no_dot)

lemma fieldAlias_of_plain:
  "CHR ''.'' \<notin> set field \<Longrightarrow> fieldAlias_of base field = base @ ''.'' @ field"
  by (simp add: fieldAlias_of_def includes_dot_def)

lemma sort_loop:
  "foldl (\<lambda>qb (key, v). addOrderBy qb (fieldAlias_of (alias' qb) key) (sort_order v)) queryBuilder entries
   = queryBuilder\<lparr>orderBys := orderBys queryBuilder
        @ map (\<lambda>(key, v). (fieldAlias_of (alias' queryBuilder) key, sort_order v)) entries\<rparr>"
proof (induction entries arbitrary: queryBuilder)
  case Nil
  show ?case by simp
next
  case (Cons entry entries)
  obtain key v where entry: "entry = (key, v)" by (cases entry)
  let ?next = "addOrderBy queryBuilder (fieldAlias_of (alias' queryBuilder) key) (sort_order v)"
  have "foldl (\<lambda>qb (key, v). addOrderBy qb (fieldAlias_of (alias' qb) key) (sort_order v)) queryBuilder
          (entry # entries)
      = foldl (\<lambda>qb (key, v). addOrderBy qb (fieldAlias_of (alias' qb) key) (sort_order v)) ?next entries"
    by (simp add: entry)
  also have "\<dots> = ?next\<lparr>orderBys := orderBys ?next
        @ map (\<lambda>(key, v). (fieldAlias_of (alias' ?next) key, sort_order v)) entries\<rparr>"
    by (rule Cons.IH)
  also have "\<dots> = queryBuilder\<lparr>orderBys := orderBys queryBuilder
        @ map (\<lambda>(key, v). (fieldAlias_of (alias' queryBuilder) key, sort_order v)) (entry # entries)\<rparr>"
    by (simp add: addOrderBy_def entry)
  finally show ?case .
qed

text \<open>
  Claim C8. \<^verbatim>\<open>applySortOrderQB\<close> adds one order per entry of the sort directive, in the order
  of the entries. The order of an entry is ascending if and only if its value is
  \<^verbatim>\<open>'ascend'\<close>, \<^verbatim>\<open>'asc'\<close>, \<^verbatim>\<open>'ascending'\<close> or the number 1, and descending for every other
  value. A dotted field name \<^verbatim>\<open>relation.field\<close> is ordered under the alias
  \<^verbatim>\<open>relation.field\<close>, and a field name without a dot under the alias of the query builder.
\<close>

theorem sort_directive:
  assumes "CHR ''.'' \<notin> set relation" "CHR ''.'' \<notin> set relatedField" "CHR ''.'' \<notin> set field"
  shows "orderBys (applySortOrderQB queryBuilder sort') =
           orderBys queryBuilder
           @ map (\<lambda>(key, v). (fieldAlias_of (alias' queryBuilder) key, sort_order v)) (Object_entries sort')
       \<and> sort_order v =
           (if v \<in> {JStr ''ascend'', JStr ''asc'', JStr ''ascending'', JNum (Finite 1)} then ''ASC'' else ''DESC'')
       \<and> fieldAlias_of (alias' queryBuilder) (relation @ ''.'' @ relatedField) = relation @ ''.'' @ relatedField
       \<and> fieldAlias_of (alias' queryBuilder) field = alias' queryBuilder @ ''.'' @ field"
proof (intro conjI)
  show "orderBys (applySortOrderQB queryBuilder sort') =
           orderBys queryBuilder
           @ map (\<lambda>(key, v). (fieldAlias_of (alias' queryBuilder) key, sort_order v)) (Object_entries sort')"
    unfolding applySortOrderQB_def sort_loop by simp
  show "sort_order v =
           (if v \<in> {JStr ''ascend'', JStr ''asc'', JStr ''ascending'', JNum (Finite 1)} then ''ASC'' else ''DESC'')"
    by (simp add: sort_order_def)
  show "fieldAlias_of (alias' queryBuilder) (relation @ ''.'' @ relatedField) = relation @ ''.'' @ relatedField"
    using assms(1,2) by (rule fieldAlias_of_dotted)
  show "fieldAlias_of (alias' queryBuilder) field = alias' queryBuilder @ ''.'' @ field"
    using assms(3) by (rule fieldAlias_of_plain)
qed

text \<open>The theorem at a directive with five entries, on the builder with alias \<^verbatim>\<open>entity\<close>.\<close>

theorem sort_directive_witness:
  "CHR ''.'' \<notin> set ''profile'' \<and> CHR ''.'' \<notin> set ''age'' \<and> CHR ''.'' \<notin> set ''name''
   \<and> orderBys (applySortOrderQB \<lparr>alias' = ''entity'', orderBys = []\<rparr>
        (JObj [(''name'', JStr ''ascend''), (''profile.age'', JStr ''descend''), (''id'', JNum (Finite 1)),
               (''rank'', JNum (Finite (- 1))), (''city'', JStr ''up'')]))
       = [(''entity.name'', ''ASC''), (''profile.age'', ''DESC''), (''entity.id'', ''ASC''),
          (''entity.rank'', ''DESC''), (''entity.city'', ''DESC'')]
   \<and> sort_order (JStr ''descending'') = ''DESC''
   \<and> fieldAlias_of ''entity'' ''profile.age'' = ''profile.age''
   \<and> fieldAlias_of ''entity'' ''name'' = ''entity.name''"
proof -
  have pre: "CHR ''.'' \<notin> set ''profile''" "CHR ''.'' \<notin> set ''age''" "CHR ''.'' \<notin> set ''name''"
    by simp_all
  show ?thesis
    using sort_directive [OF pre, of "\<lparr>alias' = ''entity'', orderBys = []\<rparr>"
        "JObj [(''name'', JStr ''ascend''), (''profile.age'', JStr ''descend''), (''id'', JNum (Finite 1)),
               (''rank'', JNum (Finite (- 1))), (''city'', JStr ''up'')]" "JStr ''descending''"]
    by (simp add: sort_order_def fieldAlias_of_def includes_dot_def)
qed

section \<open>Properties of the Boolean composer\<close>

text \<open>In fragment mode the compiler returns a fragment, and whether it fails does not depend on the identifier.\<close>

lemma parseCondition_qb_fragment: "parseCondition rt u (JStr ''qb'') a c \<noteq> Inr (Find f)"
proof (cases "invalid_field_reference (JStr ''qb'') a")
  case True
  then show ?thesis by (simp add: parseCondition_alias throw_def)
next
  case valid: False
  note ok = targets_supported(1) valid
  show ?thesis
  proof (cases "absent c")
    case True
    then show ?thesis using ok by (simp add: parseCondition_absent throw_def)
  next
    case present: False
    show ?thesis
    proof (cases "object_not_array c")
      case True
      then show ?thesis
      proof (cases rule: object_cases)
        case count
        with ok True show ?thesis by (simp add: parseCondition_key_count throw_def)
      next
        case (single op v)
        show ?thesis
          unfolding parseCondition_single [OF ok True single]
          using switch_qb_fragment by (simp add: throw_def)
      qed
    next
      case False
      show ?thesis
        unfolding parseCondition_bare [OF ok present False]
        by (simp add: result_defs)
    qed
  qed
qed

lemma parseCondition_isl:
  "isl (parseCondition rt u m a c) = isl (parseCondition rt u' m a c)"
proof -
  consider (t) "unsupported_target m"
    | (f) "\<not> unsupported_target m" "invalid_field_reference m a"
    | (ok) "\<not> unsupported_target m" "\<not> invalid_field_reference m a"
    by blast
  then show ?thesis
  proof cases
    case t
    then show ?thesis by (simp add: parseCondition_unsupported)
  next
    case f
    then show ?thesis by (simp add: parseCondition_alias)
  next
    case ok
    show ?thesis
    proof (cases "absent c")
      case True
      then show ?thesis using ok by (simp add: parseCondition_absent)
    next
      case present: False
      show ?thesis
      proof (cases "object_not_array c")
        case True
        then show ?thesis
        proof (cases rule: object_cases)
          case count
          with ok True show ?thesis by (simp add: parseCondition_key_count)
        next
          case (single op v)
          show ?thesis
            unfolding parseCondition_single [OF ok True single]
            using switch_isl [of rt m "template rt a" _ op v rt m "template rt a"]
            by (simp add: throw_def)
        qed
      next
        case False
        show ?thesis
          unfolding parseCondition_bare [OF ok present False]
          by (simp add: result_defs)
      qed
    qed
  qed
qed

lemma parseCondition_qb_isl:
  "isl (parseCondition_qb rt u a c) = isl (parseCondition rt u (JStr ''qb'') a c)"
  by (simp add: parseCondition_qb_def split: sum.splits parsed.splits)

lemma parseCondition_qb_fails:
  "isl (parseCondition_qb rt u a c) \<Longrightarrow> isl (parseCondition_qb rt u' a c)"
  using parseCondition_isl [of rt u "JStr ''qb''" a c u'] by (simp add: parseCondition_qb_isl)

lemma name_errorInc [simp]: "name (errorInc field e) = ''TypeORM_QUERY_CONDITION_PARSING_ERROR''"
  by (simp add: errorInc_def)

text \<open>The sink only grows, and what is thrown is the error of the catch block.\<close>

lemma sink_grows:
  "prefix qb (sink_after (applyWhereConditionsQB rt qb wm conditions base n))
    \<and> (\<forall>e qb' n'. applyWhereConditionsQB rt qb wm conditions base n = Thrown e qb' n'
          \<longrightarrow> name e = ''TypeORM_QUERY_CONDITION_PARSING_ERROR'')"
  "prefix qb (sink_after (for_in rt qb wm entries base n))
    \<and> (\<forall>e qb' n'. for_in rt qb wm entries base n = Thrown e qb' n'
          \<longrightarrow> name e = ''TypeORM_QUERY_CONDITION_PARSING_ERROR'')"
  "prefix nestedQb (sink_after (forEach rt nestedQb wm xs base n))
    \<and> (\<forall>e qb' n'. forEach rt nestedQb wm xs base n = Thrown e qb' n'
          \<longrightarrow> name e = ''TypeORM_QUERY_CONDITION_PARSING_ERROR'')"
proof (induction rt qb wm conditions base n and rt qb wm entries base n and rt nestedQb wm xs base n
    rule: applyWhereConditionsQB_for_in_forEach.induct)
  case (1 rt qb wm conditions base n)
  then show ?case by simp
next
  case (2 rt qb wm base n)
  show ?case by simp
next
  case (3 rt qb wm field condition rest base n)
  show ?case
  proof (cases "field = ''$and'' \<or> field = ''$or''")
    case logical: True
    show ?thesis
    proof (cases "isArray condition")
      case True
      show ?thesis
      proof (cases "forEach rt [] (if field = ''$and'' then andWhere else orWhere) (items condition) base n")
        case (Returned nestedQb n')
        with 3(2) [OF logical True Returned] logical True show ?thesis
          by (auto dest: append_prefixD)
      next
        case (Thrown e nestedQb n')
        with logical True show ?thesis by auto
      qed
    next
      case False
      with logical show ?thesis by auto
    qed
  next
    case plain: False
    show ?thesis
    proof (cases "parseCondition_qb rt (uuid rt n) (JStr (fieldAlias_of base field)) condition")
      case (Inl e)
      with plain show ?thesis by auto
    next
      case (Inr r)
      with 3(3) [OF plain Inr] plain show ?thesis
        by (auto dest: append_prefixD)
    qed
  qed
next
  case (4 rt nestedQb wm base n)
  show ?case by simp
next
  case (5 rt nestedQb wm nestedCondition others base n)
  show ?case
  proof (cases "applyWhereConditionsQB rt nestedQb wm nestedCondition base n")
    case (Returned nestedQb' n')
    with 5(1) 5(2) [OF Returned] show ?thesis
      by (auto simp del: applyWhereConditionsQB.simps intro: prefix_order.trans)
  next
    case (Thrown e nestedQb' n')
    with 5(1) show ?thesis by (auto simp del: applyWhereConditionsQB.simps)
  qed
qed


text \<open>An entry of the loop that throws whenever the loop reaches it.\<close>

lemma for_in_throws:
  assumes "(field, condition) \<in> set entries"
    and "if field = ''$and'' \<or> field = ''$or''
         then \<forall>n. thrown (forEach rt [] (if field = ''$and'' then andWhere else orWhere) (items condition) base n)
         else \<forall>u. isl (parseCondition_qb rt u (JStr (fieldAlias_of base field)) condition)"
  shows "thrown (for_in rt qb wm entries base n)"
  using assms(1)
proof (induction entries arbitrary: qb n)
  case Nil
  then show ?case by simp
next
  case (Cons entry entries)
  obtain field' condition' where entry: "entry = (field', condition')" by (cases entry)
  have later: "thrown (for_in rt qb' wm entries base n')" if "entry \<noteq> (field, condition)" for qb' n'
  proof -
    from that Cons.prems have "(field, condition) \<in> set entries" by simp
    then show ?thesis by (rule Cons.IH)
  qed
  show ?case
  proof (cases "field' = ''$and'' \<or> field' = ''$or''")
    case logical: True
    show ?thesis
    proof (cases "isArray condition'")
      case array: True
      show ?thesis
      proof (cases "forEach rt [] (if field' = ''$and'' then andWhere else orWhere) (items condition') base n")
        case (Returned nestedQb n')
        have "entry \<noteq> (field, condition)"
        proof
          assume "entry = (field, condition)"
          with entry assms(2) logical
          have "thrown (forEach rt [] (if field' = ''$and'' then andWhere else orWhere) (items condition') base n)"
            by auto
          with Returned show False by simp
        qed
        then have "thrown (for_in rt (qb @ [WhereBrackets wm nestedQb]) wm entries base n')"
          by (rule later)
        with logical array Returned show ?thesis unfolding entry by auto
      next
        case (Thrown e nestedQb n')
        with logical array show ?thesis unfolding entry by auto
      qed
    next
      case False
      with logical show ?thesis unfolding entry by auto
    qed
  next
    case plain: False
    show ?thesis
    proof (cases "parseCondition_qb rt (uuid rt n) (JStr (fieldAlias_of base field')) condition'")
      case (Inl e)
      with plain show ?thesis unfolding entry by simp
    next
      case (Inr r)
      have "entry \<noteq> (field, condition)"
      proof
        assume "entry = (field, condition)"
        with entry assms(2) plain have "isl (parseCondition_qb rt (uuid rt n) (JStr (fieldAlias_of base field')) condition')"
          by auto
        with Inr show False by simp
      qed
      then have "thrown (for_in rt (qb @ [Where wm (query r) (parameters r)]) wm entries base (Suc n))"
        by (rule later)
      with plain Inr show ?thesis unfolding entry by simp
    qed
  qed
qed

lemma forEach_throws:
  assumes "nestedCondition \<in> set xs"
    and "\<And>qb n. thrown (applyWhereConditionsQB rt qb wm nestedCondition base n)"
  shows "thrown (forEach rt nestedQb wm xs base n)"
  using assms(1)
proof (induction xs arbitrary: nestedQb n)
  case Nil
  then show ?case by simp
next
  case (Cons x xs)
  show ?case
  proof (cases "x = nestedCondition")
    case True
    with assms(2) [of nestedQb n] show ?thesis
      by (cases "applyWhereConditionsQB rt nestedQb wm nestedCondition base n")
         (simp_all del: applyWhereConditionsQB.simps)
  next
    case False
    with Cons.prems have "nestedCondition \<in> set xs" by simp
    then have "thrown (forEach rt qb' wm xs base n')" for qb' n'
      by (rule Cons.IH)
    then show ?thesis
      by (cases "applyWhereConditionsQB rt nestedQb wm x base n")
         (simp_all del: applyWhereConditionsQB.simps)
  qed
qed

lemma failing_throws:
  assumes "failing rt base conditions"
  shows "thrown (applyWhereConditionsQB rt qb wm conditions base n)"
  using assms
proof (induction arbitrary: qb wm n rule: failing.induct)
  case (field_fails field condition conditions u)
  from field_fails(4) have "\<forall>u'. isl (parseCondition_qb rt u' (JStr (fieldAlias_of base field)) condition)"
    using parseCondition_qb_fails by blast
  with field_fails(1-3) show ?case
    using for_in_throws [of field condition "own_entries conditions" rt base qb wm n] by simp
next
  case (nested_fails field condition conditions nestedCondition)
  have "thrown (forEach rt [] (if field = ''$and'' then andWhere else orWhere) (items condition) base n')" for n'
    using nested_fails(3) nested_fails.IH by (rule forEach_throws)
  with nested_fails(1,2) show ?case
    using for_in_throws [of field condition "own_entries conditions" rt base qb wm n] by simp
qed

text \<open>
  A run of the loop that throws stopped at one field: the fields before it were all merged,
  one clause each, and nothing else was put into the sink.
\<close>

lemma for_in_thrown:
  assumes "for_in rt qb wm entries base n = Thrown err qb' n'"
  shows "\<exists>before field condition after clauses n1 e.
           entries = before @ (field, condition) # after
         \<and> merged rt wm base n before clauses n1
         \<and> fails_at rt base n1 field condition e n'
         \<and> err = errorInc field e \<and> qb' = qb @ clauses"
  using assms
proof (induction entries arbitrary: qb n)
  case Nil
  then show ?case by simp
next
  case (Cons entry entries)
  obtain field condition where entry: "entry = (field, condition)" by (cases entry)
  have first: ?case if "fails_at rt base n field condition e n'" "err = errorInc field e" "qb' = qb" for e
  proof -
    have "entry # entries = [] @ (field, condition) # entries" by (simp add: entry)
    moreover have "merged rt wm base n [] [] n" by simp
    ultimately show ?thesis using that by (metis append_Nil2)
  qed
  have later: ?case
    if run: "for_in rt (qb @ [clause]) wm entries base k = Thrown err qb' n'"
      and step: "\<And>es cs n1. merged rt wm base n ((field, condition) # es) (clause # cs) n1
                   = merged rt wm base k es cs n1"
    for clause k
  proof -
    from Cons.IH [OF run] obtain before field' condition' after clauses n1 e where
      rest: "entries = before @ (field', condition') # after"
        "merged rt wm base k before clauses n1"
        "fails_at rt base n1 field' condition' e n'"
        "err = errorInc field' e" "qb' = (qb @ [clause]) @ clauses"
      by blast
    have "entry # entries = ((field, condition) # before) @ (field', condition') # after"
      using rest(1) entry by simp
    moreover have "merged rt wm base n ((field, condition) # before) (clause # clauses) n1"
      using rest(2) step by simp
    moreover have "qb' = qb @ (clause # clauses)" using rest(5) by simp
    ultimately show ?thesis using rest(3,4) by blast
  qed
  show ?case
  proof (cases "field = ''$and'' \<or> field = ''$or''")
    case logical: True
    show ?thesis
    proof (cases "isArray condition")
      case array: True
      show ?thesis
      proof (cases "forEach rt [] (if field = ''$and'' then andWhere else orWhere) (items condition) base n")
        case (Returned nestedQb k)
        with Cons.prems logical array
        have "for_in rt (qb @ [WhereBrackets wm nestedQb]) wm entries base k = Thrown err qb' n'"
          unfolding entry by auto
        then show ?thesis
          by (rule later) (use logical array Returned in auto)
      next
        case (Thrown e nestedQb k)
        with Cons.prems logical array have "err = errorInc field e" "qb' = qb" "k = n'"
          unfolding entry by auto
        moreover from Thrown logical array \<open>k = n'\<close> have "fails_at rt base n field condition e n'"
          by (auto simp add: fails_at_def)
        ultimately show ?thesis using first by blast
      qed
    next
      case False
      with Cons.prems logical
      have "err = errorInc field (TypeError (forEach_message rt condition))" "qb' = qb" "n' = n"
        unfolding entry by auto
      moreover from False logical \<open>n' = n\<close>
      have "fails_at rt base n field condition (TypeError (forEach_message rt condition)) n'"
        by (auto simp add: fails_at_def)
      ultimately show ?thesis using first by blast
    qed
  next
    case plain: False
    show ?thesis
    proof (cases "parseCondition_qb rt (uuid rt n) (JStr (fieldAlias_of base field)) condition")
      case (Inl e)
      with Cons.prems plain have "err = errorInc field e" "qb' = qb" "n' = Suc n"
        unfolding entry by auto
      moreover from Inl plain \<open>n' = Suc n\<close> have "fails_at rt base n field condition e n'"
        by (simp add: fails_at_def)
      ultimately show ?thesis using first by blast
    next
      case (Inr r)
      with Cons.prems plain
      have "for_in rt (qb @ [Where wm (query r) (parameters r)]) wm entries base (Suc n) = Thrown err qb' n'"
        unfolding entry by simp
      then show ?thesis
        by (rule later) (use plain Inr in simp)
    qed
  qed
qed

text \<open>
  Claim C1 as amended: when the filter tree has a field whose condition fails to compile,
  the call throws at a field \<open>field\<close> of the tree, the first that fails. What it throws is
  the error of the \<^verbatim>\<open>catch\<close> block: its name is \<^verbatim>\<open>TypeORM_QUERY_CONDITION_PARSING_ERROR\<close> and its
  message is \<^verbatim>\<open>Error parsing condition for field "\<close>, the name of that field, \<^verbatim>\<open>": \<close> and the
  message of the cause (the error of the compiler, or for a group the error thrown inside
  the group). The sink is not rolled back: at the throw it holds exactly what it held at
  the call, followed by the clauses merged for the fields \<open>before\<close> that came before the
  failing one, one clause per field.
\<close>

theorem failing_field_throws:
  assumes "failing rt base conditions"
  shows "\<exists>before field condition after clauses n1 e n'.
           own_entries conditions = before @ (field, condition) # after
         \<and> merged rt wm base n before clauses n1
         \<and> fails_at rt base n1 field condition e n'
         \<and> applyWhereConditionsQB rt qb wm conditions base n =
             Thrown \<lparr>name = ''TypeORM_QUERY_CONDITION_PARSING_ERROR'',
                     message = ''Error parsing condition for field '' @ [CHR 0x22] @ field @ [CHR 0x22]
                               @ '': '' @ message e\<rparr>
               (qb @ clauses) n'"
proof -
  from assms have "thrown (applyWhereConditionsQB rt qb wm conditions base n)"
    by (rule failing_throws)
  then obtain err qb' n' where "for_in rt qb wm (own_entries conditions) base n = Thrown err qb' n'"
    by (cases "for_in rt qb wm (own_entries conditions) base n") simp_all
  from for_in_thrown [OF this] this show ?thesis
    unfolding errorInc_def applyWhereConditionsQB.simps by blast
qed

text \<open>Two filter trees, run on the sample runtime with the base alias \<^verbatim>\<open>entity\<close>.\<close>

lemma sample_uuid:
  "uuid sample_runtime 0 = ''9b1deb4d-3b7d-4bad-9bdd-2b0d7b3dcb60''"
  "uuid sample_runtime (Suc 0) = ''9b1deb4d-3b7d-4bad-9bdd-2b0d7b3dcb61''"
  "uuid sample_runtime (Suc (Suc 0)) = ''9b1deb4d-3b7d-4bad-9bdd-2b0d7b3dcb62''"
  by (simp_all add: sample_runtime_def string_of_nat.simps digit_def)

lemma fieldAlias_examples:
  "fieldAlias_of ''entity'' ''name'' = ''entity.name''"
  "fieldAlias_of ''entity'' ''age'' = ''entity.age''"
  by (simp_all add: fieldAlias_of_def includes_dot_def)

lemma not_blank_examples: "\<not> blank ''entity.name''" "\<not> blank ''entity.age''"
  by (simp_all add: blank_def is_space_def)

lemma compile_name_John:
  "parseCondition_qb rt u (JStr ''entity.name'') (JStr ''John'') =
    Inr \<lparr>query = ''entity.name = :'' @ replace_dashes u @ ''_eq_entity.name'',
         parameters = Some [(replace_dashes u @ ''_eq_entity.name'', JStr ''John'')]\<rparr>"
  by (simp add: parseCondition_qb_def parseCondition_bare not_blank_examples absent_def
      object_not_array_def result_defs)

lemma compile_age_30:
  "parseCondition_qb rt u (JStr ''entity.age'') (JNum (Finite 30)) =
    Inr \<lparr>query = ''entity.age = :'' @ replace_dashes u @ ''_eq_entity.age'',
         parameters = Some [(replace_dashes u @ ''_eq_entity.age'', JNum (Finite 30))]\<rparr>"
  by (simp add: parseCondition_qb_def parseCondition_bare not_blank_examples absent_def
      object_not_array_def result_defs)

lemma compile_age_null:
  "parseCondition_qb rt u (JStr ''entity.age'') JNull = Inl (Error ''CONDITION_CANNOT_BE_UNDEFINED_OR_NULL'')"
  by (simp add: parseCondition_qb_def parseCondition_absent not_blank_examples absent_def throw_def)

lemma compile_age_gte_object:
  "parseCondition_qb rt u (JStr ''entity.age'') (JObj [(''$gte'', JObj [(''invalid'', JStr ''value'')])]) =
    Inl (Error ''$GTE_OPERATOR_MUST_HAVE_A_NUMBER_STRING_OR_DATE'')"
  by (simp add: parseCondition_qb_def parseCondition_single not_blank_examples absent_def
      switch_operator_def throw_def)

text \<open>
  Claim C1 says that a failing compilation leaves the clause sink unchanged. On the tree
  \<^verbatim>\<open>{ name: 'John', age: null }\<close> and the empty sink, the field \<^verbatim>\<open>age\<close> fails to compile and
  the call throws, but the clause of \<^verbatim>\<open>name\<close> has been merged into the sink before.
\<close>

theorem partial_sink_counterexample:
  "failing sample_runtime ''entity'' (JObj [(''name'', JStr ''John''), (''age'', JNull)])
   \<and> applyWhereConditionsQB sample_runtime [] andWhere
        (JObj [(''name'', JStr ''John''), (''age'', JNull)]) ''entity'' 0 =
      Thrown (errorInc ''age'' (Error ''CONDITION_CANNOT_BE_UNDEFINED_OR_NULL''))
        [Where andWhere ''entity.name = :9b1deb4d_3b7d_4bad_9bdd_2b0d7b3dcb60_eq_entity.name''
           (Some [(''9b1deb4d_3b7d_4bad_9bdd_2b0d7b3dcb60_eq_entity.name'', JStr ''John'')])]
        2
   \<and> sink_after (applyWhereConditionsQB sample_runtime [] andWhere
        (JObj [(''name'', JStr ''John''), (''age'', JNull)]) ''entity'' 0) \<noteq> []"
proof -
  have "failing sample_runtime ''entity'' (JObj [(''name'', JStr ''John''), (''age'', JNull)])"
    by (rule field_fails [of "''age''" JNull _ _ "[]"])
       (simp_all add: fieldAlias_examples compile_age_null)
  moreover have "applyWhereConditionsQB sample_runtime [] andWhere
        (JObj [(''name'', JStr ''John''), (''age'', JNull)]) ''entity'' 0 =
      Thrown (errorInc ''age'' (Error ''CONDITION_CANNOT_BE_UNDEFINED_OR_NULL''))
        [Where andWhere ''entity.name = :9b1deb4d_3b7d_4bad_9bdd_2b0d7b3dcb60_eq_entity.name''
           (Some [(''9b1deb4d_3b7d_4bad_9bdd_2b0d7b3dcb60_eq_entity.name'', JStr ''John'')])]
        2"
    by (simp add: fieldAlias_examples compile_name_John compile_age_null sample_uuid replace_dashes_def)
  ultimately show ?thesis by simp
qed

text \<open>
  The amended claim at \<^verbatim>\<open>{ name: 'John', $or: [{ age: 30 }, { age: { $gte: { invalid: 'value' } } }] }\<close>,
  on a sink that holds one clause already: the call throws at \<^verbatim>\<open>$or\<close>, whose cause is the
  error thrown for \<^verbatim>\<open>age\<close> inside the group; the sink keeps its clause and the clause of
  \<^verbatim>\<open>name\<close>, and the call of the group is not recorded.
\<close>

theorem failing_field_throws_witness:
  "failing sample_runtime ''entity''
     (JObj [(''name'', JStr ''John''),
            (''$or'', JArr [JObj [(''age'', JNum (Finite 30))],
                            JObj [(''age'', JObj [(''$gte'', JObj [(''invalid'', JStr ''value'')])])]])])
   \<and> merged sample_runtime andWhere ''entity'' 0 [(''name'', JStr ''John'')]
        [Where andWhere ''entity.name = :9b1deb4d_3b7d_4bad_9bdd_2b0d7b3dcb60_eq_entity.name''
           (Some [(''9b1deb4d_3b7d_4bad_9bdd_2b0d7b3dcb60_eq_entity.name'', JStr ''John'')])]
        1
   \<and> fails_at sample_runtime ''entity'' 1 ''$or''
        (JArr [JObj [(''age'', JNum (Finite 30))],
               JObj [(''age'', JObj [(''$gte'', JObj [(''invalid'', JStr ''value'')])])]])
        (errorInc ''age'' (Error ''$GTE_OPERATOR_MUST_HAVE_A_NUMBER_STRING_OR_DATE'')) 3
   \<and> applyWhereConditionsQB sample_runtime [Where andWhere ''entity.active = true'' None] andWhere
       (JObj [(''name'', JStr ''John''),
            (''$or'', JArr [JObj [(''age'', JNum (Finite 30))],
                            JObj [(''age'', JObj [(''$gte'', JObj [(''invalid'', JStr ''value'')])])]])])
       ''entity'' 0 =
      Thrown (errorInc ''$or'' (errorInc ''age'' (Error ''$GTE_OPERATOR_MUST_HAVE_A_NUMBER_STRING_OR_DATE'')))
        [Where andWhere ''entity.active = true'' None,
         Where andWhere ''entity.name = :9b1deb4d_3b7d_4bad_9bdd_2b0d7b3dcb60_eq_entity.name''
           (Some [(''9b1deb4d_3b7d_4bad_9bdd_2b0d7b3dcb60_eq_entity.name'', JStr ''John'')])]
        3
   \<and> (\<exists>before field condition after clauses n1 e n'.
         own_entries (JObj [(''name'', JStr ''John''),
            (''$or'', JArr [JObj [(''age'', JNum (Finite 30))],
                            JObj [(''age'', JObj [(''$gte'', JObj [(''invalid'', JStr ''value'')])])]])])
           = before @ (field, condition) # after
         \<and> merged sample_runtime andWhere ''entity'' 0 before clauses n1
         \<and> fails_at sample_runtime ''entity'' n1 field condition e n'
         \<and> applyWhereConditionsQB sample_runtime [Where andWhere ''entity.active = true'' None] andWhere
             (JObj [(''name'', JStr ''John''),
               (''$or'', JArr [JObj [(''age'', JNum (Finite 30))],
                               JObj [(''age'', JObj [(''$gte'', JObj [(''invalid'', JStr ''value'')])])]])])
             ''entity'' 0 =
             Thrown \<lparr>name = ''TypeORM_QUERY_CONDITION_PARSING_ERROR'',
                     message = ''Error parsing condition for field '' @ [CHR 0x22] @ field @ [CHR 0x22]
                               @ '': '' @ message e\<rparr>
               ([Where andWhere ''entity.active = true'' None] @ clauses) n')"
proof -
  let ?bad = "JObj [(''age'', JObj [(''$gte'', JObj [(''invalid'', JStr ''value'')])])]"
  let ?group = "JArr [JObj [(''age'', JNum (Finite 30))], ?bad]"
  let ?tree = "JObj [(''name'', JStr ''John''), (''$or'', ?group)]"
  have "failing sample_runtime ''entity'' ?bad"
    by (rule field_fails [of "''age''" "JObj [(''$gte'', JObj [(''invalid'', JStr ''value'')])]" _ _ "[]"])
       (simp_all add: fieldAlias_examples compile_age_gte_object)
  then have fails: "failing sample_runtime ''entity'' ?tree"
    by (rule nested_fails [of "''$or''" ?group _ ?bad, rotated 3]) simp_all
  have before: "merged sample_runtime andWhere ''entity'' 0 [(''name'', JStr ''John'')]
        [Where andWhere ''entity.name = :9b1deb4d_3b7d_4bad_9bdd_2b0d7b3dcb60_eq_entity.name''
           (Some [(''9b1deb4d_3b7d_4bad_9bdd_2b0d7b3dcb60_eq_entity.name'', JStr ''John'')])]
        1"
    by (simp add: fieldAlias_examples compile_name_John sample_uuid replace_dashes_def)
  have group: "fails_at sample_runtime ''entity'' 1 ''$or'' ?group
        (errorInc ''age'' (Error ''$GTE_OPERATOR_MUST_HAVE_A_NUMBER_STRING_OR_DATE'')) 3"
    by (simp add: fails_at_def fieldAlias_examples compile_age_30 compile_age_gte_object numeral_3_eq_3)
  have run: "applyWhereConditionsQB sample_runtime [Where andWhere ''entity.active = true'' None] andWhere
       ?tree ''entity'' 0 =
      Thrown (errorInc ''$or'' (errorInc ''age'' (Error ''$GTE_OPERATOR_MUST_HAVE_A_NUMBER_STRING_OR_DATE'')))
        [Where andWhere ''entity.active = true'' None,
         Where andWhere ''entity.name = :9b1deb4d_3b7d_4bad_9bdd_2b0d7b3dcb60_eq_entity.name''
           (Some [(''9b1deb4d_3b7d_4bad_9bdd_2b0d7b3dcb60_eq_entity.name'', JStr ''John'')])]
        3"
    by (simp add: fieldAlias_examples compile_name_John compile_age_30 compile_age_gte_object sample_uuid
        replace_dashes_def numeral_3_eq_3)
  from failing_field_throws
    [OF fails, of andWhere 0 "[Where andWhere ''entity.active = true'' None]"]
    fails before group run
  show ?thesis by (intro conjI) assumption+
qed

end
